theory Spec2Isabelle
  imports Complex_Main
begin

section \<open>Python values used by the analysis endpoint\<close>

text \<open>
  The endpoint \<^verbatim>\<open>analyze_speech\<close> of \<^verbatim>\<open>backend/app/main.py\<close> computes with Python
  numbers. Scores and durations are modelled as rationals: sums, products and quotients
  are exact, and the binary rounding of IEEE doubles is not part of the model. Integers
  are \<open>int\<close>. Strings are \<open>string\<close>; file names are taken to be ASCII, which is all the
  extension test can accept.
\<close>

subsection \<open>Number formatting\<close>

definition digit_char :: "nat \<Rightarrow> char" where
  "digit_char n = ''0123456789'' ! (n mod 10)"

text \<open>The decimal digits of a natural number, most significant first.\<close>

fun dec :: "nat \<Rightarrow> string" where
  "dec n = (if n < 10 then [digit_char n] else dec (n div 10) @ [digit_char (n mod 10)])"

declare dec.simps [simp del]

text \<open>\<^verbatim>\<open>str(i)\<close> and the format \<^verbatim>\<open>{i}\<close> of a Python integer.\<close>

definition str_int :: "int \<Rightarrow> string" where
  "str_int i = (if i < 0 then ''-'' @ dec (nat (- i)) else dec (nat i))"

definition zero_pad :: "nat \<Rightarrow> string \<Rightarrow> string" where
  "zero_pad w s = replicate (w - length s) (CHR ''0'') @ s"

text \<open>
  The format \<^verbatim>\<open>{i:02d}\<close>: at least two characters, filled with zeros after the sign.
\<close>

definition fmt_02d :: "int \<Rightarrow> string" where
  "fmt_02d i = (if i < 0 then ''-'' @ zero_pad 1 (dec (nat (- i))) else zero_pad 2 (dec (nat i)))"

subsection \<open>Arithmetic\<close>

text \<open>\<^verbatim>\<open>x // y\<close> and \<^verbatim>\<open>x % y\<close> on numbers, for a divisor that is not zero.\<close>

definition py_floordiv :: "rat \<Rightarrow> rat \<Rightarrow> rat" where
  "py_floordiv x y = of_int \<lfloor>x / y\<rfloor>"

definition py_mod :: "rat \<Rightarrow> rat \<Rightarrow> rat" where
  "py_mod x y = x - y * of_int \<lfloor>x / y\<rfloor>"

text \<open>\<^verbatim>\<open>int(x)\<close> truncates towards zero.\<close>

definition py_int :: "rat \<Rightarrow> int" where
  "py_int x = (if 0 \<le> x then \<lfloor>x\<rfloor> else \<lceil>x\<rceil>)"

text \<open>
  \<^verbatim>\<open>round(x, n)\<close>: the nearest multiple of \<open>10\<^sup>-\<^sup>n\<close>, a tie going to the even one.
\<close>

definition round_half_even :: "rat \<Rightarrow> int" where
  "round_half_even y =
     (let f = \<lfloor>y\<rfloor>; r = y - of_int f
      in if r < 1 / 2 then f
         else if 1 / 2 < r then f + 1
         else if even f then f else f + 1)"

definition py_round :: "rat \<Rightarrow> nat \<Rightarrow> rat" where
  "py_round x n = of_int (round_half_even (x * 10 ^ n)) / 10 ^ n"

subsection \<open>Duration formatting\<close>

text \<open>
  Line 140 of \<^verbatim>\<open>backend/app/main.py\<close>:
  \<^verbatim>\<open>f"{int(actual_duration // 60)}:{int(actual_duration % 60):02d}"\<close>
\<close>

definition format_duration :: "rat \<Rightarrow> string" where
  "format_duration actual_duration =
     str_int (py_int (py_floordiv actual_duration 60)) @ '':'' @
     fmt_02d (py_int (py_mod actual_duration 60))"

text \<open>
  The format as the specification words it: the whole seconds of the duration, split
  into minutes by floor division by 60, then a colon, then the remaining seconds as
  exactly two digits.
\<close>

definition spec_duration_format :: "rat \<Rightarrow> string" where
  "spec_duration_format d =
     (let whole = nat \<lfloor>d\<rfloor>; minutes = whole div 60; seconds = whole mod 60
      in dec minutes @ '':'' @ [digit_char (seconds div 10), digit_char (seconds mod 10)])"

section \<open>File names\<close>

text \<open>
  \<^verbatim>\<open>str.lower()\<close> on the characters a file name is made of: the ASCII capitals move to
  their small letters, every other character stays.
\<close>

definition lower_char :: "char \<Rightarrow> char" where
  "lower_char c =
     (let n = (of_char c :: nat) in if 65 \<le> n \<and> n \<le> 90 then char_of (n + 32) else c)"

definition lower :: "string \<Rightarrow> string" where
  "lower s = map lower_char s"

text \<open>\<^verbatim>\<open>s.rfind(c)\<close>: the last index of \<open>c\<close> in \<open>s\<close>, or \<open>-1\<close>.\<close>

primrec rfind_from :: "char \<Rightarrow> string \<Rightarrow> nat \<Rightarrow> int \<Rightarrow> int" where
  "rfind_from c [] i found = found"
| "rfind_from c (x # xs) i found = rfind_from c xs (Suc i) (if x = c then int i else found)"

definition rfind :: "char \<Rightarrow> string \<Rightarrow> int" where
  "rfind c s = rfind_from c s 0 (- 1)"

text \<open>
  \<^verbatim>\<open>os.path.splitext\<close> of the standard library, on POSIX paths: the extension starts at
  the last dot of the last path component, unless only dots stand before it there.
  \<^verbatim>\<open>
  sepIndex = p.rfind(sep)
  dotIndex = p.rfind(extsep)
  if dotIndex > sepIndex:
      filenameIndex = sepIndex + 1
      while filenameIndex < dotIndex:
          if p[filenameIndex:filenameIndex+1] != extsep:
              return p[:dotIndex], p[dotIndex:]
          filenameIndex += 1
  return p, p[:0]
  \<close>
\<close>

definition splitext :: "string \<Rightarrow> string \<times> string" where
  "splitext p =
     (let sepIndex = rfind (CHR ''/'') p;
          dotIndex = rfind (CHR ''.'') p
      in if sepIndex < dotIndex \<and>
            list_ex (\<lambda>ch. ch \<noteq> CHR ''.'')
              (take (nat (dotIndex - (sepIndex + 1))) (drop (nat (sepIndex + 1)) p))
         then (take (nat dotIndex) p, drop (nat dotIndex) p)
         else (p, []))"

text \<open>
  \<^verbatim>\<open>pathlib.Path(p).suffix\<close> on POSIX paths (CPython 3.12): the path is cut at the
  slashes, empty components and \<^verbatim>\<open>.\<close> components are dropped, the name is the last
  component left, and the suffix starts at the last dot of the name when that dot is
  neither its first nor its last character.
\<close>

primrec split_on :: "char \<Rightarrow> string \<Rightarrow> string list" where
  "split_on c [] = [[]]"
| "split_on c (x # xs) =
     (if x = c then [] # split_on c xs
      else (case split_on c xs of [] \<Rightarrow> [[x]] | y # ys \<Rightarrow> (x # y) # ys))"

definition path_name :: "string \<Rightarrow> string" where
  "path_name p =
     (case filter (\<lambda>x. x \<noteq> [] \<and> x \<noteq> ''.'') (split_on (CHR ''/'') p) of
        [] \<Rightarrow> []
      | q # qs \<Rightarrow> last (q # qs))"

definition path_suffix :: "string \<Rightarrow> string" where
  "path_suffix p =
     (let name = path_name p; i = rfind (CHR ''.'') name
      in if 0 < i \<and> i < int (length name) - 1 then drop (nat i) name else [])"

text \<open>\<^verbatim>\<open>sep.join(xs)\<close>.\<close>

fun join :: "string \<Rightarrow> string list \<Rightarrow> string" where
  "join sep [] = []"
| "join sep [x] = x"
| "join sep (x # y # ys) = x @ sep @ join sep (y # ys)"

section \<open>Exceptions and responses\<close>

text \<open>
  The type \<open>exn\<close> holds the exceptions that derive from \<^verbatim>\<open>Exception\<close>, which are the
  ones an \<^verbatim>\<open>except Exception\<close> clause catches; that includes FastAPI's
  \<^verbatim>\<open>HTTPException\<close>, which carries a status code and a detail. \<open>PyException\<close> stands for
  any other exception of that kind, with the text \<^verbatim>\<open>str(e)\<close> gives. A call that raises
  returns \<open>Inl\<close> of the exception. What derives from \<^verbatim>\<open>BaseException\<close> only
  (\<^verbatim>\<open>KeyboardInterrupt\<close>, \<^verbatim>\<open>SystemExit\<close>, \<^verbatim>\<open>asyncio.CancelledError\<close>) passes
  every handler of the endpoints and ends the request without an answer of theirs; it
  has no value in \<open>exn\<close>, and every statement about a call that raises is about an
  exception that derives from \<^verbatim>\<open>Exception\<close>.
\<close>

datatype exn = HTTPException nat string | PyException string

text \<open>\<^verbatim>\<open>str(e)\<close>; Starlette prints an \<^verbatim>\<open>HTTPException\<close> as its code, a colon and its detail.\<close>

fun str_exn :: "exn \<Rightarrow> string" where
  "str_exn (HTTPException code detail) = dec code @ '': '' @ detail"
| "str_exn (PyException msg) = msg"

section \<open>The analysis endpoint of backend/app/main.py\<close>

subsection \<open>Upload validation (lines 103 to 114)\<close>

definition allowed_extensions :: "string list" where
  "allowed_extensions = [''.wav'', ''.mp3'', ''.m4a'', ''.flac'', ''.ogg'']"

text \<open>
  \<^verbatim>\<open>audio.filename\<close> is an optional string; \<^verbatim>\<open>not audio.filename\<close> holds for \<^verbatim>\<open>None\<close> and
  for the empty string. A name that passes gives its lowercased extension.
\<close>

definition validate_upload :: "string option \<Rightarrow> exn + string" where
  "validate_upload declared =
     (case declared of
        None \<Rightarrow> Inl (HTTPException 400 ''No audio file provided'')
      | Some name \<Rightarrow>
          if name = [] then Inl (HTTPException 400 ''No audio file provided'')
          else
            let file_ext = lower (snd (splitext name))
            in if file_ext \<notin> set allowed_extensions
               then Inl (HTTPException 400
                      (''Invalid file type. Allowed: '' @ join '', '' allowed_extensions))
               else Inr file_ext)"

subsection \<open>Temporary files\<close>

text \<open>
  The part of the file system the endpoint touches: the temporary files that exist, the
  ones the operating system refuses to remove, and the removals that succeeded, in
  order.
\<close>

record world =
  files :: "string list"
  locked :: "string list"
  unlink_log :: "string list"

definition os_path_exists :: "world \<Rightarrow> string \<Rightarrow> bool" where
  "os_path_exists w p = (p \<in> set (files w))"

definition os_unlink :: "world \<Rightarrow> string \<Rightarrow> exn + world" where
  "os_unlink w p =
     (if p \<notin> set (files w) then Inl (PyException ''FileNotFoundError'')
      else if p \<in> set (locked w) then Inl (PyException ''PermissionError'')
      else Inr (w\<lparr>files := removeAll p (files w), unlink_log := unlink_log w @ [p]\<rparr>))"

text \<open>
  The \<^verbatim>\<open>finally\<close> clause (lines 281 to 288): remove the temporary file if its path was
  set and the file exists; a removal that fails is reported and swallowed.
\<close>

definition cleanup :: "string option \<Rightarrow> world \<Rightarrow> world" where
  "cleanup temp_audio_path w =
     (case temp_audio_path of
        None \<Rightarrow> w
      | Some p \<Rightarrow>
          if p \<noteq> [] \<and> os_path_exists w p
          then (case os_unlink w p of Inl e \<Rightarrow> w | Inr w' \<Rightarrow> w')
          else w)"

subsection \<open>Requests, stage results and collaborators\<close>

record upload_file =
  filename :: "string option"
  payload :: string

record request =
  audio :: upload_file
  form_topic :: string
  form_expected_duration :: string
  form_user_id :: string

text \<open>
  The scorers of \<^verbatim>\<open>app.models\<close> return dictionaries. Each one is modelled by a record
  of the entries the endpoint reads; transcripts and the pause analysis are passed on
  unread and stay opaque strings.
\<close>

record filler_result =
  Total_Filler_Words :: int
  Filler_Density :: rat
  Filler_Words_Per_Minute :: rat

record proficiency_result =
  final_score :: rat

text \<open>
  The voice modulation scorer reports a failure of its own through an \<^verbatim>\<open>error\<close> entry;
  otherwise the endpoint reads \<^verbatim>\<open>scores.total_score\<close>.
\<close>

datatype modulation_result = ModulationError string | ModulationScores rat

record development_result =
  structure_score :: rat
  time_utilization_score :: rat

record effectiveness_result =
  total_score :: rat

record vocabulary_result =
  vr_vocabulary_score :: rat
  vr_lexical_diversity :: "rat option"
  vr_unique_words :: "int option"
  vr_advanced_vocab_count :: "int option"
  vr_feedback :: "string list option"

text \<open>
  The modules and libraries the endpoint calls. Every call either returns or raises.
  \<open>audio_duration\<close> stands for \<^verbatim>\<open>librosa.load\<close> followed by \<^verbatim>\<open>librosa.get_duration\<close>;
  \<open>named_temporary_file\<close> gives the path of the file \<^verbatim>\<open>tempfile\<close> creates for a suffix.
\<close>

record collaborators =
  whisper_model :: string
  named_temporary_file :: "string \<Rightarrow> exn + string"
  upload_read :: "upload_file \<Rightarrow> exn + string"
  file_write :: "string \<Rightarrow> string \<Rightarrow> exn + unit"
  transcribe_audio :: "string \<Rightarrow> string \<Rightarrow> exn + string"
  process_transcription :: "string \<Rightarrow> exn + string \<times> nat"
  audio_duration :: "string \<Rightarrow> exn + rat"
  analyze_filler_words :: "string \<Rightarrow> exn + filler_result"
  analyze_mid_sentence_pauses :: "string \<Rightarrow> exn + string"
  calculate_proficiency_score ::
    "filler_result \<Rightarrow> string \<Rightarrow> string \<Rightarrow> string \<Rightarrow> exn + proficiency_result"
  analyze_voice_modulation :: "string \<Rightarrow> exn + modulation_result"
  evaluate_speech_development :: "string \<Rightarrow> rat \<Rightarrow> string \<Rightarrow> exn + development_result"
  evaluate_speech_effectiveness ::
    "string \<Rightarrow> string \<Rightarrow> string \<Rightarrow> rat \<Rightarrow> exn + effectiveness_result"
  evaluate_speech :: "string \<Rightarrow> string \<Rightarrow> string \<Rightarrow> string \<Rightarrow> exn + vocabulary_result"

subsection \<open>Steps 1 to 10 (lines 130 to 216)\<close>

text \<open>The local variables of the endpoint once the overall score is computed.\<close>

record analysis_locals =
  transcription_with_pauses :: string
  number_of_pauses :: nat
  actual_duration :: rat
  actual_duration_str :: string
  filler_analysis :: filler_result
  pause_analysis :: string
  proficiency_result :: proficiency_result
  modulation_result :: modulation_result
  modulation_score :: rat
  development_result :: development_result
  development_score :: rat
  effectiveness_result :: effectiveness_result
  effectiveness_score :: rat
  vocabulary_result :: vocabulary_result
  vocabulary_score :: rat
  overall_score :: rat

text \<open>Lines 167 to 171: the default of 10.0 when the result has an \<^verbatim>\<open>error\<close> entry.\<close>

definition modulation_score_of :: "modulation_result \<Rightarrow> rat" where
  "modulation_score_of r = (case r of ModulationError msg \<Rightarrow> 10 | ModulationScores t \<Rightarrow> t)"

definition run_stages :: "collaborators \<Rightarrow> request \<Rightarrow> string \<Rightarrow> exn + analysis_locals" where
  "run_stages env req temp_audio_path =
     (case transcribe_audio env (whisper_model env) temp_audio_path of
        Inl e \<Rightarrow> Inl e
      | Inr transcription_result \<Rightarrow>
     (case process_transcription env transcription_result of
        Inl e \<Rightarrow> Inl e
      | Inr (with_pauses, pauses) \<Rightarrow>
     (case audio_duration env temp_audio_path of
        Inl e \<Rightarrow> Inl e
      | Inr duration \<Rightarrow>
     (case analyze_filler_words env transcription_result of
        Inl e \<Rightarrow> Inl e
      | Inr filler \<Rightarrow>
     (case analyze_mid_sentence_pauses env with_pauses of
        Inl e \<Rightarrow> Inl e
      | Inr pause \<Rightarrow>
     (case calculate_proficiency_score env filler pause (format_duration duration)
             (form_expected_duration req) of
        Inl e \<Rightarrow> Inl e
      | Inr proficiency \<Rightarrow>
     (case analyze_voice_modulation env temp_audio_path of
        Inl e \<Rightarrow> Inl e
      | Inr modulation \<Rightarrow>
     (case evaluate_speech_development env with_pauses duration (form_expected_duration req) of
        Inl e \<Rightarrow> Inl e
      | Inr development \<Rightarrow>
     (case evaluate_speech_effectiveness env with_pauses (form_topic req)
             (form_expected_duration req) duration of
        Inl e \<Rightarrow> Inl e
      | Inr effectiveness \<Rightarrow>
     (case evaluate_speech env transcription_result with_pauses temp_audio_path
             (form_topic req) of
        Inl e \<Rightarrow> Inl e
      | Inr vocab \<Rightarrow>
          Inr \<lparr>transcription_with_pauses = with_pauses,
               number_of_pauses = pauses,
               actual_duration = duration,
               actual_duration_str = format_duration duration,
               filler_analysis = filler,
               pause_analysis = pause,
               proficiency_result = proficiency,
               modulation_result = modulation,
               modulation_score = modulation_score_of modulation,
               development_result = development,
               development_score = structure_score development + time_utilization_score development,
               effectiveness_result = effectiveness,
               effectiveness_score = total_score effectiveness,
               vocabulary_result = vocab,
               vocabulary_score = (vr_vocabulary_score vocab / 100) * 20,
               overall_score =
                 final_score proficiency + modulation_score_of modulation +
                 (structure_score development + time_utilization_score development) +
                 total_score effectiveness + (vr_vocabulary_score vocab / 100) * 20\<rparr>))))))))))"

subsection \<open>Step 11: the report (lines 221 to 254)\<close>

record score_map =
  proficiency :: rat
  voice_modulation :: rat
  speech_development :: rat
  speech_effectiveness :: rat
  vocabulary :: rat

record duration_info =
  actual :: string
  expected :: string
  seconds :: rat

record filler_info =
  total_filler_words :: int
  filler_density :: rat
  filler_per_minute :: rat

record vocabulary_info =
  lexical_diversity :: rat
  unique_words :: int
  advanced_vocab_count :: int
  feedback :: "string list"

text \<open>
  The keys of the JSON document. \<open>voice_modulation_details\<close> is \<open>None\<close> for the empty
  dictionary the endpoint puts there when the scorer reported an error.
\<close>

record report =
  report_overall_score :: rat
  scores :: score_map
  transcription :: string
  duration :: duration_info
  report_filler_analysis :: filler_info
  report_pause_analysis :: string
  proficiency_details :: proficiency_result
  voice_modulation_details :: "modulation_result option"
  speech_development_details :: development_result
  speech_effectiveness_details :: effectiveness_result
  vocabulary_details :: vocabulary_info
  topic :: string
  user_id :: string

text \<open>\<^verbatim>\<open>d.get(key, default)\<close> on an entry that may be missing.\<close>

definition get_or :: "'a option \<Rightarrow> 'a \<Rightarrow> 'a" where
  "get_or entry fallback = (case entry of None \<Rightarrow> fallback | Some v \<Rightarrow> v)"

definition compile_results :: "request \<Rightarrow> analysis_locals \<Rightarrow> report" where
  "compile_results req l =
     \<lparr>report_overall_score = py_round (overall_score l) 1,
      scores =
        \<lparr>proficiency = py_round (final_score (proficiency_result l)) 1,
         voice_modulation = py_round (modulation_score l) 1,
         speech_development = py_round (development_score l) 1,
         speech_effectiveness = py_round (effectiveness_score l) 1,
         vocabulary = py_round (vocabulary_score l) 1\<rparr>,
      transcription = transcription_with_pauses l,
      duration =
        \<lparr>actual = actual_duration_str l,
         expected = form_expected_duration req,
         seconds = py_round (actual_duration l) 1\<rparr>,
      report_filler_analysis =
        \<lparr>total_filler_words = Total_Filler_Words (filler_analysis l),
         filler_density = py_round (Filler_Density (filler_analysis l)) 3,
         filler_per_minute = Filler_Words_Per_Minute (filler_analysis l)\<rparr>,
      report_pause_analysis = pause_analysis l,
      proficiency_details = proficiency_result l,
      voice_modulation_details =
        (case modulation_result l of
           ModulationError msg \<Rightarrow> None
         | ModulationScores t \<Rightarrow> Some (modulation_result l)),
      speech_development_details = development_result l,
      speech_effectiveness_details = effectiveness_result l,
      vocabulary_details =
        \<lparr>lexical_diversity = get_or (vr_lexical_diversity (vocabulary_result l)) 0,
         unique_words = get_or (vr_unique_words (vocabulary_result l)) 0,
         advanced_vocab_count = get_or (vr_advanced_vocab_count (vocabulary_result l)) 0,
         feedback = get_or (vr_feedback (vocabulary_result l)) []\<rparr>,
      topic = form_topic req,
      user_id = form_user_id req\<rparr>"

subsection \<open>The endpoint (lines 100 to 288)\<close>

text \<open>\<^verbatim>\<open>JSONResponse(content=results)\<close> answers with status 200.\<close>

datatype response = JSONResponse (status_code: nat) (body: report)

text \<open>
  The \<^verbatim>\<open>try\<close> block. Besides its outcome it gives the value of \<^verbatim>\<open>temp_audio_path\<close> when
  the block is left, and the file system then. The temporary file is created with
  \<^verbatim>\<open>delete=False\<close>, so it stays when the \<^verbatim>\<open>with\<close> block is left, whichever way.
\<close>

definition try_block ::
  "collaborators \<Rightarrow> request \<Rightarrow> world \<Rightarrow> (exn + response) \<times> string option \<times> world" where
  "try_block env req w =
     (case validate_upload (filename (audio req)) of
        Inl e \<Rightarrow> (Inl e, None, w)
      | Inr file_ext \<Rightarrow>
     (case named_temporary_file env file_ext of
        Inl e \<Rightarrow> (Inl e, None, w)
      | Inr temp_audio_path \<Rightarrow>
          let w1 = w\<lparr>files := temp_audio_path # files w\<rparr>
          in
     (case upload_read env (audio req) of
        Inl e \<Rightarrow> (Inl e, Some temp_audio_path, w1)
      | Inr bytes \<Rightarrow>
     (case file_write env temp_audio_path bytes of
        Inl e \<Rightarrow> (Inl e, Some temp_audio_path, w1)
      | Inr u \<Rightarrow>
     (case run_stages env req temp_audio_path of
        Inl e \<Rightarrow> (Inl e, Some temp_audio_path, w1)
      | Inr l \<Rightarrow>
          (Inr (JSONResponse 200 (compile_results req l)), Some temp_audio_path, w1))))))"

text \<open>
  Lines 270 to 279: \<^verbatim>\<open>except Exception as e\<close> catches whatever the block raised and
  raises an \<^verbatim>\<open>HTTPException\<close> with status 500 in its place.
\<close>

definition except_handler :: "exn + response \<Rightarrow> exn + response" where
  "except_handler r =
     (case r of
        Inl e \<Rightarrow> Inl (HTTPException 500 (''Analysis failed: '' @ str_exn e))
      | Inr resp \<Rightarrow> Inr resp)"

definition analyze_speech ::
  "collaborators \<Rightarrow> request \<Rightarrow> world \<Rightarrow> (exn + response) \<times> world" where
  "analyze_speech env req w =
     (case try_block env req w of
        (r, temp_audio_path, w1) \<Rightarrow> (except_handler r, cleanup temp_audio_path w1))"

section \<open>The analysis endpoint of app/main.py\<close>

text \<open>
  The second \<^verbatim>\<open>analyze_speech\<close>, served at \<^verbatim>\<open>/api/v2/analyze\<close>: it validates the upload,
  stages it, and hands the staged file to the speech service and to the Firebase
  service. Its \<^verbatim>\<open>except\<close> and \<^verbatim>\<open>finally\<close> clauses are those of the first endpoint
  (\<^verbatim>\<open>os.remove\<close> is \<^verbatim>\<open>os.unlink\<close>).
\<close>

definition v2_allowed_extensions :: "string list" where
  "v2_allowed_extensions = [''.wav'', ''.mp3'', ''.m4a'', ''.ogg'']"

definition v2_validate_upload :: "string option \<Rightarrow> exn + string" where
  "v2_validate_upload declared =
     (case declared of
        None \<Rightarrow> Inl (HTTPException 400 ''No filename provided'')
      | Some name \<Rightarrow>
          if name = [] then Inl (HTTPException 400 ''No filename provided'')
          else
            let file_ext = lower (path_suffix name)
            in if file_ext \<notin> set v2_allowed_extensions
               then Inl (HTTPException 400
                      (''Unsupported file type: '' @ file_ext @
                       ''. Supported: .wav, .mp3, .m4a, .ogg''))
               else Inr file_ext)"

record v2_request =
  v2_file :: upload_file
  v2_user_id :: string
  v2_topic :: string
  v2_speech_type :: string
  v2_expected_duration :: string
  v2_actual_duration :: string
  v2_gender :: "string option"

record v2_result =
  analysis :: string
  audio_url :: "string option"

record services =
  svc_named_temporary_file :: "string \<Rightarrow> exn + string"
  svc_upload_read :: "upload_file \<Rightarrow> exn + string"
  svc_file_write :: "string \<Rightarrow> string \<Rightarrow> exn + unit"
  speech_service_analyze ::
    "string \<Rightarrow> string \<Rightarrow> string \<Rightarrow> string \<Rightarrow> string \<Rightarrow> string \<Rightarrow> string \<Rightarrow> exn + string"
  upload_audio :: "string \<Rightarrow> string \<Rightarrow> string \<Rightarrow> exn + string"
  save_speech_analysis ::
    "string \<Rightarrow> v2_result \<Rightarrow> string \<Rightarrow> string \<Rightarrow> string \<Rightarrow> exn + unit"

datatype v2_response = V2Response (v2_status_code: nat) (v2_body: v2_result)

text \<open>\<^verbatim>\<open>gender or 'auto'\<close>.\<close>

definition gender_or_auto :: "string option \<Rightarrow> string" where
  "gender_or_auto g = (case g of None \<Rightarrow> ''auto'' | Some x \<Rightarrow> if x = [] then ''auto'' else x)"

definition v2_try_block ::
  "services \<Rightarrow> v2_request \<Rightarrow> world \<Rightarrow> (exn + v2_response) \<times> string option \<times> world" where
  "v2_try_block svc req w =
     (case v2_validate_upload (filename (v2_file req)) of
        Inl e \<Rightarrow> (Inl e, None, w)
      | Inr file_ext \<Rightarrow>
     (case svc_named_temporary_file svc file_ext of
        Inl e \<Rightarrow> (Inl e, None, w)
      | Inr temp_file_path \<Rightarrow>
          let w1 = w\<lparr>files := temp_file_path # files w\<rparr>
          in
     (case svc_upload_read svc (v2_file req) of
        Inl e \<Rightarrow> (Inl e, Some temp_file_path, w1)
      | Inr bytes \<Rightarrow>
     (case svc_file_write svc temp_file_path bytes of
        Inl e \<Rightarrow> (Inl e, Some temp_file_path, w1)
      | Inr u \<Rightarrow>
     (case speech_service_analyze svc temp_file_path (v2_user_id req) (v2_topic req)
             (v2_speech_type req) (v2_expected_duration req) (v2_actual_duration req)
             (gender_or_auto (v2_gender req)) of
        Inl e \<Rightarrow> (Inl e, Some temp_file_path, w1)
      | Inr analysed \<Rightarrow>
     (case upload_audio svc temp_file_path (v2_user_id req)
             (case filename (v2_file req) of None \<Rightarrow> [] | Some n \<Rightarrow> n) of
        Inl e \<Rightarrow> (Inl e, Some temp_file_path, w1)
      | Inr url \<Rightarrow>
          let analysis_result = \<lparr>analysis = analysed, audio_url = Some url\<rparr>
          in
     (case save_speech_analysis svc (v2_user_id req) analysis_result (v2_topic req)
             (v2_speech_type req) (v2_actual_duration req) of
        Inl e \<Rightarrow> (Inl e, Some temp_file_path, w1)
      | Inr u' \<Rightarrow> (Inr (V2Response 200 analysis_result), Some temp_file_path, w1))))))))"

definition v2_except_handler :: "exn + v2_response \<Rightarrow> exn + v2_response" where
  "v2_except_handler r =
     (case r of
        Inl e \<Rightarrow> Inl (HTTPException 500 (''Analysis failed: '' @ str_exn e))
      | Inr resp \<Rightarrow> Inr resp)"

definition v2_analyze_speech ::
  "services \<Rightarrow> v2_request \<Rightarrow> world \<Rightarrow> (exn + v2_response) \<times> world" where
  "v2_analyze_speech svc req w =
     (case v2_try_block svc req w of
        (r, temp_file_path, w1) \<Rightarrow> (v2_except_handler r, cleanup temp_file_path w1))"

section \<open>The save endpoint of backend/app/main.py (lines 290 to 327)\<close>

datatype json =
  JNull | JBool bool | JNumber rat | JString string | JArray "json list"
  | JObject "(string \<times> json) list"

text \<open>What a field of a stored document holds.\<close>

datatype stored = StoredString string | ServerTimestamp | StoredJson json

record firestore =
  speeches :: "(string \<times> (string \<times> stored) list) list"

text \<open>
  \<^verbatim>\<open>json.loads\<close>, the identifier Firestore gives a new document of a collection, and the
  write \<^verbatim>\<open>doc_ref.set\<close>, which may fail.
\<close>

record persistence =
  json_loads :: "string \<Rightarrow> exn + json"
  new_document_id :: "firestore \<Rightarrow> string"
  document_set :: "string \<Rightarrow> (string \<times> stored) list \<Rightarrow> exn + unit"

record save_result =
  success :: bool
  document_id :: string
  message :: string

text \<open>
  The names bound in the module \<^verbatim>\<open>backend/app/main.py\<close> when a request is served: its
  imports (lines 1 to 23) and its own definitions.
\<close>

definition module_globals :: "string list" where
  "module_globals =
     [''os'', ''whisper'', ''librosa'', ''FastAPI'', ''File'', ''UploadFile'', ''Form'',
      ''HTTPException'', ''CORSMiddleware'', ''JSONResponse'', ''tempfile'', ''traceback'',
      ''load_dotenv'', ''filler_word_detection'', ''proficiency_evaluation'', ''transcript'',
      ''voice_modulation'', ''speech_development'', ''speech_effectiveness'',
      ''vocabulary_evaluation'', ''db'', ''app'', ''whisper_model'', ''startup_event'',
      ''root'', ''health_check'', ''analyze_speech'', ''save_speech_to_firebase'']"

text \<open>
  Reading a name that is neither local nor built in: a name the module does not bind
  raises \<^verbatim>\<open>NameError\<close>.
\<close>

definition load_global :: "string \<Rightarrow> exn + string" where
  "load_global n =
     (if n \<in> set module_globals then Inr n
      else Inl (PyException (''name '' @ [CHR 0x27] @ n @ [CHR 0x27] @ '' is not defined'')))"

text \<open>An entry of a dictionary display overrides an earlier entry with its key.\<close>

fun dict_put :: "string \<Rightarrow> 'v \<Rightarrow> (string \<times> 'v) list \<Rightarrow> (string \<times> 'v) list" where
  "dict_put k v [] = [(k, v)]"
| "dict_put k v ((k', v') # kvs) =
     (if k = k' then (k, v) # kvs else (k', v') # dict_put k v kvs)"

text \<open>
  The \<^verbatim>\<open>try\<close> block. The dictionary display is evaluated entry by entry:
  \<^verbatim>\<open>user_id\<close>, then \<^verbatim>\<open>firestore.SERVER_TIMESTAMP\<close>, then the entries of \<^verbatim>\<open>data\<close>.
\<close>

definition save_try_block ::
  "persistence \<Rightarrow> string \<Rightarrow> string \<Rightarrow> firestore \<Rightarrow> (exn + save_result) \<times> firestore" where
  "save_try_block env uid speech_data db =
     (case json_loads env speech_data of
        Inl e \<Rightarrow> (Inl e, db)
      | Inr parsed \<Rightarrow>
          let doc_id = new_document_id env db
          in
     (case load_global ''firestore'' of
        Inl e \<Rightarrow> (Inl e, db)
      | Inr module_name \<Rightarrow>
     (case parsed of
        JObject kvs \<Rightarrow>
          let fields =
                foldl (\<lambda>d (k, v). dict_put k (StoredJson v) d)
                  [(''user_id'', StoredString uid), (''timestamp'', ServerTimestamp)] kvs
          in
          (case document_set env doc_id fields of
             Inl e \<Rightarrow> (Inl e, db)
           | Inr u \<Rightarrow>
               (Inr \<lparr>success = True, document_id = doc_id,
                     message = ''Speech saved successfully''\<rparr>,
                db\<lparr>speeches := dict_put doc_id fields (speeches db)\<rparr>))
      | JNull \<Rightarrow> (Inl (PyException ''TypeError''), db)
      | JBool b \<Rightarrow> (Inl (PyException ''TypeError''), db)
      | JNumber x \<Rightarrow> (Inl (PyException ''TypeError''), db)
      | JString x \<Rightarrow> (Inl (PyException ''TypeError''), db)
      | JArray xs \<Rightarrow> (Inl (PyException ''TypeError''), db))))"

definition save_speech_to_firebase ::
  "persistence \<Rightarrow> string \<Rightarrow> string \<Rightarrow> firestore \<Rightarrow> (exn + save_result) \<times> firestore" where
  "save_speech_to_firebase env uid speech_data db =
     (case save_try_block env uid speech_data db of
        (Inl e, db') \<Rightarrow> (Inl (HTTPException 500 (''Failed to save speech: '' @ str_exn e)), db')
      | (Inr r, db') \<Rightarrow> (Inr r, db'))"

section \<open>Concrete invocations\<close>

text \<open>
  The scenario of the specification: a clip of three minutes, the topic Leadership, and
  scorers that return 18, 15, 16 (as 10 + 6), 14 and a vocabulary score of 17 out of 100.
\<close>

definition scenario_env :: collaborators where
  "scenario_env =
     \<lparr>whisper_model = ''base'',
      named_temporary_file = (\<lambda>suffix. Inr (''/tmp/tmpk3v9'' @ suffix)),
      upload_read = (\<lambda>f. Inr (payload f)),
      file_write = (\<lambda>p c. Inr ()),
      transcribe_audio = (\<lambda>m p. Inr ''raw transcript''),
      process_transcription = (\<lambda>t. Inr (''transcript [pause]'', 1)),
      audio_duration = (\<lambda>p. Inr 180),
      analyze_filler_words =
        (\<lambda>t. Inr \<lparr>Total_Filler_Words = 3, Filler_Density = 1 / 50,
                   Filler_Words_Per_Minute = 1\<rparr>),
      analyze_mid_sentence_pauses = (\<lambda>t. Inr ''pauses''),
      calculate_proficiency_score = (\<lambda>f p a x. Inr \<lparr>final_score = 18\<rparr>),
      analyze_voice_modulation = (\<lambda>p. Inr (ModulationScores 15)),
      evaluate_speech_development =
        (\<lambda>t d x. Inr \<lparr>structure_score = 10, time_utilization_score = 6\<rparr>),
      evaluate_speech_effectiveness = (\<lambda>t s x d. Inr \<lparr>total_score = 14\<rparr>),
      evaluate_speech =
        (\<lambda>r t p s. Inr \<lparr>vr_vocabulary_score = 17, vr_lexical_diversity = Some (1 / 2),
                       vr_unique_words = Some 120, vr_advanced_vocab_count = None,
                       vr_feedback = None\<rparr>)\<rparr>"

definition scenario_request :: request where
  "scenario_request =
     \<lparr>audio = \<lparr>filename = Some ''speech.wav'', payload = ''RIFF''\<rparr>,
      form_topic = ''Leadership'',
      form_expected_duration = ''5-7 minutes'',
      form_user_id = ''user-1''\<rparr>"

definition empty_world :: world where
  "empty_world = \<lparr>files = [], locked = [], unlink_log = []\<rparr>"

definition scenario_path :: string where
  "scenario_path = ''/tmp/tmpk3v9.wav''"

text \<open>The local variables the scenario ends with.\<close>

definition scenario_locals :: analysis_locals where
  "scenario_locals =
     \<lparr>transcription_with_pauses = ''transcript [pause]'',
      number_of_pauses = 1,
      actual_duration = 180,
      actual_duration_str = ''3:00'',
      filler_analysis =
        \<lparr>Total_Filler_Words = 3, Filler_Density = 1 / 50, Filler_Words_Per_Minute = 1\<rparr>,
      pause_analysis = ''pauses'',
      proficiency_result = \<lparr>final_score = 18\<rparr>,
      modulation_result = ModulationScores 15,
      modulation_score = 15,
      development_result = \<lparr>structure_score = 10, time_utilization_score = 6\<rparr>,
      development_score = 16,
      effectiveness_result = \<lparr>total_score = 14\<rparr>,
      effectiveness_score = 14,
      vocabulary_result =
        \<lparr>vr_vocabulary_score = 17, vr_lexical_diversity = Some (1 / 2),
         vr_unique_words = Some 120, vr_advanced_vocab_count = None, vr_feedback = None\<rparr>,
      vocabulary_score = 17 / 5,
      overall_score = 332 / 5\<rparr>"

text \<open>Variations of the scenario: one collaborator answers differently.\<close>

definition out_of_range_env :: collaborators where
  "out_of_range_env =
     scenario_env\<lparr>calculate_proficiency_score := (\<lambda>f p a x. Inr \<lparr>final_score = 25\<rparr>)\<rparr>"

definition proficiency_raises_env :: collaborators where
  "proficiency_raises_env =
     scenario_env\<lparr>calculate_proficiency_score :=
       (\<lambda>f p a x. Inl (PyException ''division by zero''))\<rparr>"

definition vocabulary_raises_env :: collaborators where
  "vocabulary_raises_env =
     scenario_env\<lparr>evaluate_speech := (\<lambda>r t p s. Inl (PyException ''no tokens''))\<rparr>"

definition modulation_raises_env :: collaborators where
  "modulation_raises_env =
     scenario_env\<lparr>analyze_voice_modulation :=
       (\<lambda>p. Inl (PyException ''could not decode audio''))\<rparr>"

definition modulation_error_env :: collaborators where
  "modulation_error_env =
     scenario_env\<lparr>analyze_voice_modulation :=
       (\<lambda>p. Inr (ModulationError ''could not decode audio''))\<rparr>"

definition full_vocabulary_env :: collaborators where
  "full_vocabulary_env =
     scenario_env\<lparr>evaluate_speech :=
       (\<lambda>r t p s. Inr \<lparr>vr_vocabulary_score = 100, vr_lexical_diversity = None,
                      vr_unique_words = None, vr_advanced_vocab_count = None,
                      vr_feedback = None\<rparr>)\<rparr>"

definition text_file_request :: request where
  "text_file_request =
     scenario_request\<lparr>audio := \<lparr>filename = Some ''notes.txt'', payload = ''hello''\<rparr>\<rparr>"

definition locked_world :: world where
  "locked_world = \<lparr>files = [], locked = [''/tmp/tmpk3v9.wav''], unlink_log = []\<rparr>"

definition scenario_services :: services where
  "scenario_services =
     \<lparr>svc_named_temporary_file = (\<lambda>suffix. Inr (''/tmp/tmpq7w2'' @ suffix)),
      svc_upload_read = (\<lambda>f. Inr (payload f)),
      svc_file_write = (\<lambda>p c. Inr ()),
      speech_service_analyze = (\<lambda>p u t s e a g. Inr ''analysis''),
      upload_audio = (\<lambda>p u n. Inr ''https://storage.example/speech.wav''),
      save_speech_analysis = (\<lambda>u r t s a. Inr ())\<rparr>"

definition scenario_v2_request :: v2_request where
  "scenario_v2_request =
     \<lparr>v2_file = \<lparr>filename = Some ''speech.wav'', payload = ''RIFF''\<rparr>,
      v2_user_id = ''user-1'',
      v2_topic = ''Leadership'',
      v2_speech_type = ''prepared'',
      v2_expected_duration = ''5-7 minutes'',
      v2_actual_duration = ''3:00'',
      v2_gender = None\<rparr>"

definition scenario_persistence :: persistence where
  "scenario_persistence =
     \<lparr>json_loads = (\<lambda>s. Inr (JObject [])),
      new_document_id = (\<lambda>db. ''doc-1''),
      document_set = (\<lambda>i f. Inr ())\<rparr>"

definition empty_firestore :: firestore where
  "empty_firestore = \<lparr>speeches = []\<rparr>"

text \<open>
  The path the \<^verbatim>\<open>try\<close> block stages the upload at, if it gets that far: the upload
  must pass the validation and \<^verbatim>\<open>tempfile\<close> must create the file.
\<close>

definition staged_path :: "collaborators \<Rightarrow> request \<Rightarrow> string option" where
  "staged_path env req =
     (case validate_upload (filename (audio req)) of
        Inl e \<Rightarrow> None
      | Inr file_ext \<Rightarrow>
          (case named_temporary_file env file_ext of Inl e \<Rightarrow> None | Inr p \<Rightarrow> Some p))"

definition v2_staged_path :: "services \<Rightarrow> v2_request \<Rightarrow> string option" where
  "v2_staged_path svc req =
     (case v2_validate_upload (filename (v2_file req)) of
        Inl e \<Rightarrow> None
      | Inr file_ext \<Rightarrow>
          (case svc_named_temporary_file svc file_ext of Inl e \<Rightarrow> None | Inr p \<Rightarrow> Some p))"

text \<open>What a caller sees of an invocation: the report of a 200 answer, or the status of an error.\<close>

definition report_of :: "(exn + response) \<times> world \<Rightarrow> report option" where
  "report_of out = (case fst out of Inl e \<Rightarrow> None | Inr resp \<Rightarrow> Some (body resp))"

definition http_status :: "(exn + response) \<times> world \<Rightarrow> nat option" where
  "http_status out =
     (case fst out of
        Inl (HTTPException code detail) \<Rightarrow> Some code
      | Inl (PyException msg) \<Rightarrow> None
      | Inr resp \<Rightarrow> Some (status_code resp))"

text \<open>
  The invocation ends with the request-level error the \<^verbatim>\<open>except\<close> clause raises for
  the exception \<open>e\<close>: status 500 and the detail \<^verbatim>\<open>Analysis failed: \<close> followed by
  \<^verbatim>\<open>str(e)\<close>.
\<close>

definition fails_with :: "(exn + response) \<times> world \<Rightarrow> exn \<Rightarrow> bool" where
  "fails_with out e =
     (fst out = Inl (HTTPException 500 (''Analysis failed: '' @ str_exn e)))"

section \<open>Properties\<close>

subsection \<open>Formatting\<close>

lemma dec_small: "n < 10 \<Longrightarrow> dec n = [digit_char n]"
  by (simp add: dec.simps)

lemma dec_two_digits:
  assumes "10 \<le> n" and "n < 100"
  shows "dec n = [digit_char (n div 10), digit_char (n mod 10)]"
proof -
  have "n div 10 < 10" using assms by simp
  then show ?thesis using assms by (simp add: dec.simps [of n] dec_small)
qed

lemma digit_char_0: "digit_char 0 = CHR ''0''"
  by (simp add: digit_char_def)

lemma fmt_02d_below_60:
  assumes "s < 60"
  shows "fmt_02d (int s) = [digit_char (s div 10), digit_char (s mod 10)]"
proof (cases "s < 10")
  case True
  then show ?thesis
    by (simp add: fmt_02d_def zero_pad_def dec_small digit_char_0)
next
  case False
  then have "dec s = [digit_char (s div 10), digit_char (s mod 10)]"
    using assms by (intro dec_two_digits) simp_all
  then show ?thesis by (simp add: fmt_02d_def zero_pad_def)
qed

lemma floor_div_60:
  fixes d :: rat
  shows "\<lfloor>d / 60\<rfloor> = \<lfloor>d\<rfloor> div 60"
  by linarith

lemma format_duration_refines:
  assumes "0 \<le> d"
  shows "format_duration d = spec_duration_format d"
proof -
  define w where "w = nat \<lfloor>d\<rfloor>"
  have fl: "\<lfloor>d\<rfloor> = int w" using assms by (simp add: w_def)
  have m: "py_int (py_floordiv d 60) = int (w div 60)"
    by (simp add: py_int_def py_floordiv_def floor_div_60 fl zdiv_int)
  have "py_mod d 60 = d - of_int (60 * (\<lfloor>d\<rfloor> div 60))"
    by (simp add: py_mod_def floor_div_60)
  then have "\<lfloor>py_mod d 60\<rfloor> = \<lfloor>d\<rfloor> - 60 * (\<lfloor>d\<rfloor> div 60)"
    by (simp only: floor_diff_of_int)
  then have fm: "\<lfloor>py_mod d 60\<rfloor> = int (w mod 60)"
    by (simp add: fl zmod_int minus_mult_div_eq_mod)
  have "0 \<le> \<lfloor>py_mod d 60\<rfloor>" using fm by simp
  then have "0 \<le> py_mod d 60" by (simp only: zero_le_floor)
  then have s: "py_int (py_mod d 60) = int (w mod 60)"
    using fm by (simp add: py_int_def)
  show ?thesis
    unfolding format_duration_def spec_duration_format_def m s
    by (simp add: w_def [symmetric] str_int_def fmt_02d_below_60 Let_def)
qed


text \<open>
  C7. For every non-negative duration the formatted string is the minutes, got by floor
  division of the whole seconds by 60, a colon, and the remaining whole seconds as two
  digits. 125.4 seconds give \<open>2:05\<close>, 59.9 seconds give \<open>0:59\<close>, and 0 seconds give
  \<open>0:00\<close>.
\<close>

theorem duration_format:
  assumes "0 \<le> d"
  shows "format_duration d = spec_duration_format d
         \<and> format_duration (1254 / 10) = ''2:05''
         \<and> format_duration (599 / 10) = ''0:59''
         \<and> format_duration 0 = ''0:00''"
proof -
  have "format_duration (1254 / 10) = ''2:05''" by code_simp
  moreover have "format_duration (599 / 10) = ''0:59''" by code_simp
  moreover have "format_duration 0 = ''0:00''" by code_simp
  ultimately show ?thesis using format_duration_refines [OF assms] by simp
qed

theorem duration_format_witness:
  "(0::rat) \<le> 1254 / 10
   \<and> format_duration (1254 / 10) = spec_duration_format (1254 / 10)
   \<and> spec_duration_format (1254 / 10) = ''2:05''"
proof -
  have h: "(0::rat) \<le> 1254 / 10" by simp
  have "spec_duration_format (1254 / 10) = ''2:05''" by code_simp
  then show ?thesis using duration_format [OF h] by simp
qed

subsection \<open>Rounding\<close>

lemma rhe_lower:
  assumes "of_int a \<le> y"
  shows "a \<le> round_half_even y"
proof -
  have "a \<le> \<lfloor>y\<rfloor>" using assms by (simp add: le_floor_iff)
  then show ?thesis by (simp add: round_half_even_def Let_def)
qed

lemma rhe_upper:
  assumes "y \<le> of_int b"
  shows "round_half_even y \<le> b"
proof -
  have fb: "\<lfloor>y\<rfloor> \<le> b" using assms by (simp add: floor_le_iff) 
  show ?thesis
  proof (cases "\<lfloor>y\<rfloor> = b")
    case True
    then have "y = of_int b" using assms of_int_floor_le [of y] by simp
    then show ?thesis by (simp add: round_half_even_def)
  next
    case False
    then have "\<lfloor>y\<rfloor> + 1 \<le> b" using fb by simp
    then show ?thesis using fb by (simp add: round_half_even_def Let_def)
  qed
qed

lemma py_round1_bounds:
  assumes "of_int a \<le> x" and "x \<le> of_int b"
  shows "of_int a \<le> py_round x 1 \<and> py_round x 1 \<le> of_int b"
proof -
  have "of_int (a * 10) \<le> x * 10" using assms(1) by simp
  then have lo: "a * 10 \<le> round_half_even (x * 10)" by (rule rhe_lower)
  have "x * 10 \<le> of_int (b * 10)" using assms(2) by simp
  then have hi: "round_half_even (x * 10) \<le> b * 10" by (rule rhe_upper)
  have "(of_int (a * 10) :: rat) \<le> of_int (round_half_even (x * 10))"
    using lo by (simp only: of_int_le_iff)
  moreover have "(of_int (round_half_even (x * 10)) :: rat) \<le> of_int (b * 10)"
    using hi by (simp only: of_int_le_iff)
  ultimately show ?thesis by (simp add: py_round_def)
qed

lemma py_round1_exact: "py_round (of_int k / 10) 1 = of_int k / 10"
  by (simp add: py_round_def round_half_even_def)

subsection \<open>Steps 1 to 10\<close>

lemma run_stages_scores:
  assumes "run_stages env req p = Inr l"
  shows "modulation_score l = modulation_score_of (modulation_result l)"
    and "development_score l =
           structure_score (development_result l) + time_utilization_score (development_result l)"
    and "effectiveness_score l = total_score (effectiveness_result l)"
    and "vocabulary_score l = vr_vocabulary_score (vocabulary_result l) / 100 * 20"
    and "overall_score l =
           final_score (proficiency_result l) + modulation_score l + development_score l +
           effectiveness_score l + vocabulary_score l"
  using assms
  by (auto simp: run_stages_def split: sum.splits prod.splits)

lemma run_stages_returns:
  assumes "transcribe_audio env (whisper_model env) p = Inr tr"
    and "process_transcription env tr = Inr (wp, n)"
    and "audio_duration env p = Inr d"
    and "analyze_filler_words env tr = Inr fa"
    and "analyze_mid_sentence_pauses env wp = Inr pa"
    and "calculate_proficiency_score env fa pa (format_duration d)
           (form_expected_duration req) = Inr pr"
    and "analyze_voice_modulation env p = Inr mr"
    and "evaluate_speech_development env wp d (form_expected_duration req) = Inr dr"
    and "evaluate_speech_effectiveness env wp (form_topic req)
           (form_expected_duration req) d = Inr er"
    and "evaluate_speech env tr wp p (form_topic req) = Inr vr"
  shows "run_stages env req p =
           Inr \<lparr>transcription_with_pauses = wp,
                number_of_pauses = n,
                actual_duration = d,
                actual_duration_str = format_duration d,
                filler_analysis = fa,
                pause_analysis = pa,
                proficiency_result = pr,
                modulation_result = mr,
                modulation_score =
                  (case mr of ModulationError msg \<Rightarrow> 10 | ModulationScores t \<Rightarrow> t),
                development_result = dr,
                development_score = structure_score dr + time_utilization_score dr,
                effectiveness_result = er,
                effectiveness_score = total_score er,
                vocabulary_result = vr,
                vocabulary_score = vr_vocabulary_score vr / 100 * 20,
                overall_score =
                  final_score pr +
                  (case mr of ModulationError msg \<Rightarrow> 10 | ModulationScores t \<Rightarrow> t) +
                  (structure_score dr + time_utilization_score dr) + total_score er +
                  vr_vocabulary_score vr / 100 * 20\<rparr>"
  using assms by (simp add: run_stages_def modulation_score_of_def)

text \<open>What the steps give when every one of them returns, in terms of what they returned.\<close>

lemma run_stages_returns_scores:
  assumes "transcribe_audio env (whisper_model env) p = Inr tr"
    and "process_transcription env tr = Inr (wp, n)"
    and "audio_duration env p = Inr d"
    and "analyze_filler_words env tr = Inr fa"
    and "analyze_mid_sentence_pauses env wp = Inr pa"
    and "calculate_proficiency_score env fa pa (format_duration d)
           (form_expected_duration req) = Inr pr"
    and "analyze_voice_modulation env p = Inr mr"
    and "evaluate_speech_development env wp d (form_expected_duration req) = Inr dr"
    and "evaluate_speech_effectiveness env wp (form_topic req)
           (form_expected_duration req) d = Inr er"
    and "evaluate_speech env tr wp p (form_topic req) = Inr vr"
  shows "\<exists>l. run_stages env req p = Inr l
           \<and> proficiency_result l = pr
           \<and> modulation_result l = mr
           \<and> modulation_score l =
               (case mr of ModulationError msg \<Rightarrow> 10 | ModulationScores t \<Rightarrow> t)
           \<and> development_score l = structure_score dr + time_utilization_score dr
           \<and> effectiveness_score l = total_score er
           \<and> vocabulary_score l = vr_vocabulary_score vr / 100 * 20
           \<and> overall_score l =
               final_score pr +
               (case mr of ModulationError msg \<Rightarrow> 10 | ModulationScores t \<Rightarrow> t) +
               (structure_score dr + time_utilization_score dr) + total_score er +
               vr_vocabulary_score vr / 100 * 20"
  using run_stages_returns [OF assms] by simp

subsection \<open>How an invocation ends\<close>

lemma try_block_invalid:
  assumes "validate_upload (filename (audio req)) = Inl e"
  shows "try_block env req w = (Inl e, None, w)"
  using assms by (simp add: try_block_def)

lemma try_block_not_staged:
  assumes "validate_upload (filename (audio req)) = Inr ext"
    and "named_temporary_file env ext = Inl e"
  shows "try_block env req w = (Inl e, None, w)"
  using assms by (simp add: try_block_def)

lemma try_block_staged:
  assumes "validate_upload (filename (audio req)) = Inr ext"
    and "named_temporary_file env ext = Inr p"
  shows "\<exists>r. try_block env req w = (r, Some p, w\<lparr>files := p # files w\<rparr>)"
  using assms by (simp add: try_block_def Let_def split: sum.splits)

lemma try_block_success:
  assumes "validate_upload (filename (audio req)) = Inr ext"
    and "named_temporary_file env ext = Inr p"
    and "upload_read env (audio req) = Inr b"
    and "file_write env p b = Inr u"
    and "run_stages env req p = Inr l"
  shows "try_block env req w =
           (Inr (JSONResponse 200 (compile_results req l)), Some p, w\<lparr>files := p # files w\<rparr>)"
  using assms by (simp add: try_block_def Let_def)

lemma try_block_stage_raises:
  assumes "validate_upload (filename (audio req)) = Inr ext"
    and "named_temporary_file env ext = Inr p"
    and "upload_read env (audio req) = Inr b"
    and "file_write env p b = Inr u"
    and "run_stages env req p = Inl e"
  shows "try_block env req w = (Inl e, Some p, w\<lparr>files := p # files w\<rparr>)"
  using assms by (simp add: try_block_def Let_def)

lemma analyze_speech_success:
  assumes "validate_upload (filename (audio req)) = Inr ext"
    and "named_temporary_file env ext = Inr p"
    and "upload_read env (audio req) = Inr b"
    and "file_write env p b = Inr u"
    and "run_stages env req p = Inr l"
  shows "fst (analyze_speech env req w) = Inr (JSONResponse 200 (compile_results req l))"
  by (simp add: analyze_speech_def try_block_success [OF assms] except_handler_def)

lemma analyze_speech_stage_raises:
  assumes "validate_upload (filename (audio req)) = Inr ext"
    and "named_temporary_file env ext = Inr p"
    and "upload_read env (audio req) = Inr b"
    and "file_write env p b = Inr u"
    and "run_stages env req p = Inl e"
  shows "fst (analyze_speech env req w) =
           Inl (HTTPException 500 (''Analysis failed: '' @ str_exn e))"
  by (simp add: analyze_speech_def try_block_stage_raises [OF assms] except_handler_def)

lemma analyze_speech_invalid:
  assumes "validate_upload (filename (audio req)) = Inl e"
  shows "analyze_speech env req w =
           (Inl (HTTPException 500 (''Analysis failed: '' @ str_exn e)), w)"
  by (simp add: analyze_speech_def try_block_invalid [OF assms] except_handler_def cleanup_def)

text \<open>Whatever the block raises leaves the endpoint as a 500.\<close>

lemma except_handler_cases:
  "(\<exists>e. r = Inl e \<and> except_handler r = Inl (HTTPException 500 (''Analysis failed: '' @ str_exn e)))
   \<or> (\<exists>resp. r = Inr resp \<and> except_handler r = Inr resp)"
  by (cases r) (simp_all add: except_handler_def)

lemma try_block_Inr:
  assumes "fst (try_block env req w) = Inr resp"
  shows "\<exists>p l. run_stages env req p = Inr l \<and> resp = JSONResponse 200 (compile_results req l)"
  using assms by (auto simp: try_block_def Let_def split: sum.splits)

lemma analyze_speech_fst:
  "fst (analyze_speech env req w) = except_handler (fst (try_block env req w))"
  by (simp add: analyze_speech_def split: prod.splits)

subsection \<open>The scenario\<close>

lemma format_duration_180: "format_duration 180 = ''3:00''"
  by code_simp

lemma scenario_run_stages:
  "run_stages scenario_env scenario_request scenario_path = Inr scenario_locals"
  by (simp add: run_stages_def scenario_env_def scenario_request_def scenario_locals_def
      scenario_path_def modulation_score_of_def format_duration_180)

lemma scenario_valid: "validate_upload (filename (audio scenario_request)) = Inr ''.wav''"
  unfolding scenario_request_def by code_simp

lemma scenario_staging:
  "named_temporary_file scenario_env ''.wav'' = Inr scenario_path"
  "upload_read scenario_env (audio scenario_request) = Inr ''RIFF''"
  "file_write scenario_env scenario_path ''RIFF'' = Inr ()"
  by (simp_all add: scenario_env_def scenario_path_def scenario_request_def)


lemma scenario_stage_results:
  "transcribe_audio scenario_env (whisper_model scenario_env) scenario_path = Inr ''raw transcript''"
  "process_transcription scenario_env ''raw transcript'' = Inr (''transcript [pause]'', 1)"
  "audio_duration scenario_env scenario_path = Inr 180"
  "analyze_filler_words scenario_env ''raw transcript'' =
     Inr \<lparr>Total_Filler_Words = 3, Filler_Density = 1 / 50, Filler_Words_Per_Minute = 1\<rparr>"
  "analyze_mid_sentence_pauses scenario_env ''transcript [pause]'' = Inr ''pauses''"
  "calculate_proficiency_score scenario_env
     \<lparr>Total_Filler_Words = 3, Filler_Density = 1 / 50, Filler_Words_Per_Minute = 1\<rparr>
     ''pauses'' (format_duration 180) (form_expected_duration scenario_request) =
     Inr \<lparr>final_score = 18\<rparr>"
  "analyze_voice_modulation scenario_env scenario_path = Inr (ModulationScores 15)"
  "evaluate_speech_development scenario_env ''transcript [pause]'' 180
     (form_expected_duration scenario_request) =
     Inr \<lparr>structure_score = 10, time_utilization_score = 6\<rparr>"
  "evaluate_speech_effectiveness scenario_env ''transcript [pause]''
     (form_topic scenario_request) (form_expected_duration scenario_request) 180 =
     Inr \<lparr>total_score = 14\<rparr>"
  "evaluate_speech scenario_env ''raw transcript'' ''transcript [pause]'' scenario_path
     (form_topic scenario_request) =
     Inr \<lparr>vr_vocabulary_score = 17, vr_lexical_diversity = Some (1 / 2),
          vr_unique_words = Some 120, vr_advanced_vocab_count = None, vr_feedback = None\<rparr>"
  by (simp_all add: scenario_env_def)

subsection \<open>The overall score\<close>

text \<open>
  C1. In every invocation whose steps 1 to 10 return, the overall score the endpoint
  computes is the unweighted sum of the five dimension scores, each taken from what its
  scorer returned: the proficiency score, the voice modulation score (the scorer's total,
  or 10.0 for a result with an \<^verbatim>\<open>error\<close> entry), the speech development score (structure
  plus time utilization), the speech effectiveness score and the vocabulary score rescaled
  by \<open>/ 100 * 20\<close>. When the five lie between 0 and 20 the sum lies between 0 and 100;
  the report carries it rounded to one decimal, also between 0 and 100. In the scenario of
  the specification (18, 15, 16, 14 and a vocabulary score of 17 out of 100, rescaled to
  3.4) it is 66.4.
\<close>

theorem overall_score_exact_sum:
  assumes "transcribe_audio env (whisper_model env) p = Inr tr"
    and "process_transcription env tr = Inr (wp, n)"
    and "audio_duration env p = Inr d"
    and "analyze_filler_words env tr = Inr fa"
    and "analyze_mid_sentence_pauses env wp = Inr pa"
    and "calculate_proficiency_score env fa pa (format_duration d)
           (form_expected_duration req) = Inr pr"
    and "analyze_voice_modulation env p = Inr mr"
    and "evaluate_speech_development env wp d (form_expected_duration req) = Inr dr"
    and "evaluate_speech_effectiveness env wp (form_topic req)
           (form_expected_duration req) d = Inr er"
    and "evaluate_speech env tr wp p (form_topic req) = Inr vr"
    and "0 \<le> final_score pr \<and> final_score pr \<le> 20"
    and "0 \<le> (case mr of ModulationError msg \<Rightarrow> 10 | ModulationScores t \<Rightarrow> t)
         \<and> (case mr of ModulationError msg \<Rightarrow> 10 | ModulationScores t \<Rightarrow> t) \<le> 20"
    and "0 \<le> structure_score dr + time_utilization_score dr
         \<and> structure_score dr + time_utilization_score dr \<le> 20"
    and "0 \<le> total_score er \<and> total_score er \<le> 20"
    and "0 \<le> vr_vocabulary_score vr / 100 * 20 \<and> vr_vocabulary_score vr / 100 * 20 \<le> 20"
  shows "\<exists>l. run_stages env req p = Inr l
           \<and> overall_score l =
               final_score pr +
               (case mr of ModulationError msg \<Rightarrow> 10 | ModulationScores t \<Rightarrow> t) +
               (structure_score dr + time_utilization_score dr) + total_score er +
               vr_vocabulary_score vr / 100 * 20
           \<and> overall_score l =
               final_score (proficiency_result l) + modulation_score l + development_score l +
               effectiveness_score l + vocabulary_score l
           \<and> 0 \<le> overall_score l \<and> overall_score l \<le> 100
           \<and> report_overall_score (compile_results req l) = py_round (overall_score l) 1
           \<and> 0 \<le> report_overall_score (compile_results req l)
           \<and> report_overall_score (compile_results req l) \<le> 100
           \<and> (validate_upload (filename (audio req)) = Inr ext
                \<and> named_temporary_file env ext = Inr p
                \<and> upload_read env (audio req) = Inr b
                \<and> file_write env p b = Inr u
              \<longrightarrow> fst (analyze_speech env req w) =
                    Inr (JSONResponse 200 (compile_results req l)))"
proof -
  obtain l where run: "run_stages env req p = Inr l"
    and pr: "proficiency_result l = pr"
    and ms: "modulation_score l =
               (case mr of ModulationError msg \<Rightarrow> 10 | ModulationScores t \<Rightarrow> t)"
    and ds: "development_score l = structure_score dr + time_utilization_score dr"
    and es: "effectiveness_score l = total_score er"
    and vs: "vocabulary_score l = vr_vocabulary_score vr / 100 * 20"
    and sum: "overall_score l =
               final_score pr +
               (case mr of ModulationError msg \<Rightarrow> 10 | ModulationScores t \<Rightarrow> t) +
               (structure_score dr + time_utilization_score dr) + total_score er +
               vr_vocabulary_score vr / 100 * 20"
    using run_stages_returns_scores [OF assms(1-10)] by blast
  have fields: "overall_score l =
               final_score (proficiency_result l) + modulation_score l + development_score l +
               effectiveness_score l + vocabulary_score l"
    by (simp only: sum pr ms ds es vs)
  have range: "of_int 0 \<le> overall_score l \<and> overall_score l \<le> of_int 100"
    unfolding sum using assms(11-15) by simp
  have rounded: "of_int 0 \<le> py_round (overall_score l) 1
                 \<and> py_round (overall_score l) 1 \<le> of_int 100"
    using range by (intro py_round1_bounds) simp_all
  have rep: "report_overall_score (compile_results req l) = py_round (overall_score l) 1"
    by (simp add: compile_results_def)
  have inv: "validate_upload (filename (audio req)) = Inr ext
               \<and> named_temporary_file env ext = Inr p
               \<and> upload_read env (audio req) = Inr b
               \<and> file_write env p b = Inr u
             \<longrightarrow> fst (analyze_speech env req w) =
                   Inr (JSONResponse 200 (compile_results req l))"
    using analyze_speech_success [OF _ _ _ _ run] by blast
  have "0 \<le> overall_score l \<and> overall_score l \<le> 100
        \<and> 0 \<le> report_overall_score (compile_results req l)
        \<and> report_overall_score (compile_results req l) \<le> 100"
    using range rounded rep by simp
  then show ?thesis
    using run sum fields rep inv by blast
qed

theorem overall_score_exact_sum_witness:
  "run_stages scenario_env scenario_request scenario_path = Inr scenario_locals
   \<and> vocabulary_score scenario_locals = 17 / 100 * 20
   \<and> overall_score scenario_locals = 18 + 15 + 16 + 14 + 17 / 5
   \<and> overall_score scenario_locals = 664 / 10
   \<and> report_overall_score (compile_results scenario_request scenario_locals) = 664 / 10
   \<and> map_option report_overall_score
       (report_of (analyze_speech scenario_env scenario_request empty_world)) = Some (664 / 10)"
proof -
  obtain l where run: "run_stages scenario_env scenario_request scenario_path = Inr l"
    and sum: "overall_score l =
        final_score \<lparr>final_score = 18\<rparr> +
        (case ModulationScores 15 of ModulationError msg \<Rightarrow> 10 | ModulationScores t \<Rightarrow> t) +
        (structure_score \<lparr>structure_score = 10, time_utilization_score = 6\<rparr> +
         time_utilization_score \<lparr>structure_score = 10, time_utilization_score = 6\<rparr>) +
        total_score \<lparr>total_score = 14\<rparr> +
        vr_vocabulary_score
          \<lparr>vr_vocabulary_score = 17, vr_lexical_diversity = Some (1 / 2),
           vr_unique_words = Some 120, vr_advanced_vocab_count = None, vr_feedback = None\<rparr>
          / 100 * 20"
    and rep: "report_overall_score (compile_results scenario_request l) =
        py_round (overall_score l) 1"
    and inv: "validate_upload (filename (audio scenario_request)) = Inr ''.wav''
          \<and> named_temporary_file scenario_env ''.wav'' = Inr scenario_path
          \<and> upload_read scenario_env (audio scenario_request) = Inr ''RIFF''
          \<and> file_write scenario_env scenario_path ''RIFF'' = Inr ()
        \<longrightarrow> fst (analyze_speech scenario_env scenario_request empty_world) =
              Inr (JSONResponse 200 (compile_results scenario_request l))"
    using overall_score_exact_sum [OF scenario_stage_results, where ext = "''.wav''" and b = "''RIFF''" and u = "()"
        and w = empty_world]
    by auto
  have l: "l = scenario_locals" using run scenario_run_stages by simp
  have o: "overall_score scenario_locals = 664 / 10"
    using sum unfolding l by simp
  have r: "py_round (664 / 10) 1 = 664 / 10"
    using py_round1_exact [of 664] by simp
  have "fst (analyze_speech scenario_env scenario_request empty_world) =
          Inr (JSONResponse 200 (compile_results scenario_request scenario_locals))"
    using inv scenario_valid scenario_staging unfolding l by simp
  then have "report_of (analyze_speech scenario_env scenario_request empty_world) =
          Some (compile_results scenario_request scenario_locals)"
    by (simp add: report_of_def)
  then show ?thesis
    using scenario_run_stages o r rep unfolding l by (simp add: scenario_locals_def)
qed

subsection \<open>The vocabulary score\<close>

lemma run_stages_vocabulary:
  assumes "run_stages env req p = Inr l"
  shows "\<exists>tr. evaluate_speech env tr (transcription_with_pauses l) p (form_topic req) =
           Inr (vocabulary_result l)"
  using assms by (auto simp: run_stages_def split: sum.splits prod.splits)

text \<open>
  C6. Whatever score \<open>v\<close> out of 100 the vocabulary scorer returns, the vocabulary
  dimension adds exactly \<open>v / 100 * 20\<close> to the overall score: 20 for \<open>v = 100\<close> and 0 for
  \<open>v = 0\<close>.
\<close>

theorem vocabulary_rescale:
  assumes "run_stages env req p = Inr l"
  shows "(\<exists>tr. evaluate_speech env tr (transcription_with_pauses l) p (form_topic req) =
            Inr (vocabulary_result l))
         \<and> vocabulary_score l = vr_vocabulary_score (vocabulary_result l) / 100 * 20
         \<and> overall_score l =
             (final_score (proficiency_result l) + modulation_score l + development_score l +
              effectiveness_score l) + vr_vocabulary_score (vocabulary_result l) / 100 * 20
         \<and> (vr_vocabulary_score (vocabulary_result l) = 100 \<longrightarrow> vocabulary_score l = 20)
         \<and> (vr_vocabulary_score (vocabulary_result l) = 0 \<longrightarrow> vocabulary_score l = 0)"
  using run_stages_vocabulary [OF assms] run_stages_scores(4,5) [OF assms] by simp

lemma full_vocabulary_run:
  "\<exists>l. run_stages full_vocabulary_env scenario_request scenario_path = Inr l
       \<and> vr_vocabulary_score (vocabulary_result l) = 100
       \<and> final_score (proficiency_result l) + modulation_score l + development_score l +
              effectiveness_score l = 63"
  by (simp add: run_stages_def full_vocabulary_env_def scenario_env_def scenario_request_def
      scenario_path_def modulation_score_of_def)

theorem vocabulary_rescale_witness:
  "map_sum id vocabulary_score (run_stages full_vocabulary_env scenario_request scenario_path) = Inr 20
   \<and> map_sum id overall_score (run_stages full_vocabulary_env scenario_request scenario_path) = Inr (63 + 20)
   \<and> map_sum id vocabulary_score (run_stages scenario_env scenario_request scenario_path) = Inr (17 / 100 * 20)"
proof -
  obtain l where l: "run_stages full_vocabulary_env scenario_request scenario_path = Inr l"
    and v: "vr_vocabulary_score (vocabulary_result l) = 100"
    and rest: "final_score (proficiency_result l) + modulation_score l + development_score l +
              effectiveness_score l = 63"
    using full_vocabulary_run by blast
  have "vocabulary_score l = 20" and "overall_score l = 63 + 20"
    using vocabulary_rescale [OF l] v rest by simp_all
  moreover have "vocabulary_score scenario_locals = 17 / 100 * 20"
    using vocabulary_rescale [OF scenario_run_stages] by (simp add: scenario_locals_def)
  ultimately show ?thesis using l scenario_run_stages by simp
qed

subsection \<open>The reported scores\<close>

lemma out_of_range_run:
  "run_stages out_of_range_env scenario_request scenario_path =
     Inr (scenario_locals\<lparr>proficiency_result := \<lparr>final_score = 25\<rparr>, overall_score := 367 / 5\<rparr>)"
  by (simp add: run_stages_def out_of_range_env_def scenario_env_def scenario_request_def
      scenario_locals_def scenario_path_def modulation_score_of_def format_duration_180)

lemma py_round_25: "py_round 25 1 = 25"
  using py_round1_exact [of 250] by simp

lemma out_of_range_staging:
  "named_temporary_file out_of_range_env ''.wav'' = Inr scenario_path"
  "upload_read out_of_range_env (audio scenario_request) = Inr ''RIFF''"
  "file_write out_of_range_env scenario_path ''RIFF'' = Inr ()"
  by (simp_all add: out_of_range_env_def scenario_staging)

text \<open>
  C4 says that every score entering the report is clamped to the interval from 0 to 20.
  The endpoint has no clamp: a proficiency scorer that returns 25 puts 25 into the
  report.
\<close>

theorem score_not_clamped_counterexample:
  "map_option (\<lambda>r. proficiency (scores r))
     (report_of (analyze_speech out_of_range_env scenario_request empty_world)) = Some 25
   \<and> map_option (\<lambda>r. proficiency (scores r) \<le> 20)
     (report_of (analyze_speech out_of_range_env scenario_request empty_world)) = Some False"
proof -
  have "fst (analyze_speech out_of_range_env scenario_request empty_world) =
          Inr (JSONResponse 200 (compile_results scenario_request
            (scenario_locals\<lparr>proficiency_result := \<lparr>final_score = 25\<rparr>, overall_score := 367 / 5\<rparr>)))"
    by (rule analyze_speech_success [OF scenario_valid out_of_range_staging out_of_range_run])
  then have "report_of (analyze_speech out_of_range_env scenario_request empty_world) =
          Some (compile_results scenario_request
            (scenario_locals\<lparr>proficiency_result := \<lparr>final_score = 25\<rparr>, overall_score := 367 / 5\<rparr>))"
    by (simp only: report_of_def sum.case response.sel)
  moreover have "proficiency (scores (compile_results scenario_request
            (scenario_locals\<lparr>proficiency_result := \<lparr>final_score = 25\<rparr>, overall_score := 367 / 5\<rparr>))) = 25"
    using py_round_25 by (simp add: compile_results_def)
  ultimately show ?thesis by simp
qed

text \<open>
  C4, amended. In every invocation whose steps return, every score of the report is what
  its scorer returned, rounded to one decimal and not clamped: the proficiency score,
  the voice modulation total (or the default 10.0 for a result with an \<^verbatim>\<open>error\<close>
  entry), the sum of the structure and time utilization scores, the speech effectiveness
  total, and the vocabulary score rescaled by \<open>/ 100 * 20\<close>. A reported score lies
  between 0 and 20 whenever the scorer's value does (for vocabulary: whenever the
  scorer's value lies between 0 and 100).
\<close>

theorem reported_scores_rounded_stage_values:
  assumes "transcribe_audio env (whisper_model env) p = Inr tr"
    and "process_transcription env tr = Inr (wp, n)"
    and "audio_duration env p = Inr d"
    and "analyze_filler_words env tr = Inr fa"
    and "analyze_mid_sentence_pauses env wp = Inr pa"
    and "calculate_proficiency_score env fa pa (format_duration d)
           (form_expected_duration req) = Inr pr"
    and "analyze_voice_modulation env p = Inr mr"
    and "evaluate_speech_development env wp d (form_expected_duration req) = Inr dr"
    and "evaluate_speech_effectiveness env wp (form_topic req)
           (form_expected_duration req) d = Inr er"
    and "evaluate_speech env tr wp p (form_topic req) = Inr vr"
  shows "\<exists>l. run_stages env req p = Inr l
           \<and> scores (compile_results req l) =
               \<lparr>proficiency = py_round (final_score pr) 1,
                voice_modulation =
                  py_round (case mr of ModulationError msg \<Rightarrow> 10 | ModulationScores t \<Rightarrow> t) 1,
                speech_development =
                  py_round (structure_score dr + time_utilization_score dr) 1,
                speech_effectiveness = py_round (total_score er) 1,
                vocabulary = py_round (vr_vocabulary_score vr / 100 * 20) 1\<rparr>
           \<and> (0 \<le> final_score pr \<and> final_score pr \<le> 20
                \<longrightarrow> 0 \<le> proficiency (scores (compile_results req l))
                  \<and> proficiency (scores (compile_results req l)) \<le> 20)
           \<and> (mr = ModulationScores t \<and> 0 \<le> t \<and> t \<le> 20
                \<longrightarrow> voice_modulation (scores (compile_results req l)) = py_round t 1
                  \<and> 0 \<le> voice_modulation (scores (compile_results req l))
                  \<and> voice_modulation (scores (compile_results req l)) \<le> 20)
           \<and> (mr = ModulationError msg
                \<longrightarrow> voice_modulation (scores (compile_results req l)) = 10)
           \<and> (0 \<le> structure_score dr + time_utilization_score dr
                \<and> structure_score dr + time_utilization_score dr \<le> 20
                \<longrightarrow> 0 \<le> speech_development (scores (compile_results req l))
                  \<and> speech_development (scores (compile_results req l)) \<le> 20)
           \<and> (0 \<le> total_score er \<and> total_score er \<le> 20
                \<longrightarrow> 0 \<le> speech_effectiveness (scores (compile_results req l))
                  \<and> speech_effectiveness (scores (compile_results req l)) \<le> 20)
           \<and> (0 \<le> vr_vocabulary_score vr \<and> vr_vocabulary_score vr \<le> 100
                \<longrightarrow> 0 \<le> vocabulary (scores (compile_results req l))
                  \<and> vocabulary (scores (compile_results req l)) \<le> 20)
           \<and> (validate_upload (filename (audio req)) = Inr ext
                \<and> named_temporary_file env ext = Inr p
                \<and> upload_read env (audio req) = Inr b
                \<and> file_write env p b = Inr u
              \<longrightarrow> report_of (analyze_speech env req w) = Some (compile_results req l))"
proof -
  obtain l where run: "run_stages env req p = Inr l"
    and pr: "proficiency_result l = pr"
    and ms: "modulation_score l =
               (case mr of ModulationError msg \<Rightarrow> 10 | ModulationScores t \<Rightarrow> t)"
    and ds: "development_score l = structure_score dr + time_utilization_score dr"
    and es: "effectiveness_score l = total_score er"
    and vs: "vocabulary_score l = vr_vocabulary_score vr / 100 * 20"
    using run_stages_returns_scores [OF assms] by blast
  have b: "\<And>x::rat. 0 \<le> x \<and> x \<le> 20 \<longrightarrow> 0 \<le> py_round x 1 \<and> py_round x 1 \<le> 20"
    using py_round1_bounds [of 0 _ 20] by simp
  have ten: "py_round 10 1 = 10" using py_round1_exact [of 100] by simp
  have s: "scores (compile_results req l) =
               \<lparr>proficiency = py_round (final_score pr) 1,
                voice_modulation =
                  py_round (case mr of ModulationError msg \<Rightarrow> 10 | ModulationScores t \<Rightarrow> t) 1,
                speech_development =
                  py_round (structure_score dr + time_utilization_score dr) 1,
                speech_effectiveness = py_round (total_score er) 1,
                vocabulary = py_round (vr_vocabulary_score vr / 100 * 20) 1\<rparr>"
    by (simp add: compile_results_def pr ms ds es vs)
  have c1: "0 \<le> final_score pr \<and> final_score pr \<le> 20
                \<longrightarrow> 0 \<le> proficiency (scores (compile_results req l))
                  \<and> proficiency (scores (compile_results req l)) \<le> 20"
    unfolding s using b by simp
  have c2: "mr = ModulationScores t \<and> 0 \<le> t \<and> t \<le> 20
                \<longrightarrow> voice_modulation (scores (compile_results req l)) = py_round t 1
                  \<and> 0 \<le> voice_modulation (scores (compile_results req l))
                  \<and> voice_modulation (scores (compile_results req l)) \<le> 20"
    unfolding s using b by auto
  have c3: "mr = ModulationError msg
                \<longrightarrow> voice_modulation (scores (compile_results req l)) = 10"
    unfolding s using ten by auto
  have c4: "0 \<le> structure_score dr + time_utilization_score dr
                \<and> structure_score dr + time_utilization_score dr \<le> 20
                \<longrightarrow> 0 \<le> speech_development (scores (compile_results req l))
                  \<and> speech_development (scores (compile_results req l)) \<le> 20"
    unfolding s using b by simp
  have c5: "0 \<le> total_score er \<and> total_score er \<le> 20
                \<longrightarrow> 0 \<le> speech_effectiveness (scores (compile_results req l))
                  \<and> speech_effectiveness (scores (compile_results req l)) \<le> 20"
    unfolding s using b by simp
  have v: "0 \<le> vr_vocabulary_score vr \<and> vr_vocabulary_score vr \<le> 100
     \<longrightarrow> 0 \<le> vr_vocabulary_score vr / 100 * 20 \<and> vr_vocabulary_score vr / 100 * 20 \<le> 20"
    by simp
  have c6: "0 \<le> vr_vocabulary_score vr \<and> vr_vocabulary_score vr \<le> 100
                \<longrightarrow> 0 \<le> vocabulary (scores (compile_results req l))
                  \<and> vocabulary (scores (compile_results req l)) \<le> 20"
    unfolding s using b v by (simp del: times_divide_eq_left)
  have inv: "validate_upload (filename (audio req)) = Inr ext
                \<and> named_temporary_file env ext = Inr p
                \<and> upload_read env (audio req) = Inr b
                \<and> file_write env p b = Inr u
              \<longrightarrow> report_of (analyze_speech env req w) = Some (compile_results req l)"
    using analyze_speech_success [OF _ _ _ _ run] by (auto simp: report_of_def)
  show ?thesis
    using run s c1 c2 c3 c4 c5 c6 inv by blast
qed

theorem reported_scores_rounded_stage_values_witness:
  "map_option scores (report_of (analyze_speech scenario_env scenario_request empty_world)) =
     Some \<lparr>proficiency = 18, voice_modulation = 15, speech_development = 16,
           speech_effectiveness = 14, vocabulary = 34 / 10\<rparr>
   \<and> (0::rat) \<le> 34 / 10 \<and> (34 / 10 :: rat) \<le> 20"
proof -
  have r: "py_round 18 1 = 18" "py_round 15 1 = 15" "py_round 16 1 = 16" "py_round 14 1 = 14"
    "py_round (34 / 10) 1 = 34 / 10"
    using py_round1_exact [of 180] py_round1_exact [of 150] py_round1_exact [of 160]
      py_round1_exact [of 140] py_round1_exact [of 34] by simp_all
  obtain l where
    s: "scores (compile_results scenario_request l) =
          \<lparr>proficiency = py_round (final_score \<lparr>final_score = 18\<rparr>) 1,
           voice_modulation =
             py_round (case ModulationScores 15 of ModulationError msg \<Rightarrow> 10
                       | ModulationScores t \<Rightarrow> t) 1,
           speech_development =
             py_round (structure_score \<lparr>structure_score = 10, time_utilization_score = 6\<rparr> +
                       time_utilization_score \<lparr>structure_score = 10, time_utilization_score = 6\<rparr>) 1,
           speech_effectiveness = py_round (total_score \<lparr>total_score = 14\<rparr>) 1,
           vocabulary =
             py_round (vr_vocabulary_score
               \<lparr>vr_vocabulary_score = 17, vr_lexical_diversity = Some (1 / 2),
                vr_unique_words = Some 120, vr_advanced_vocab_count = None, vr_feedback = None\<rparr>
               / 100 * 20) 1\<rparr>"
    and inv: "validate_upload (filename (audio scenario_request)) = Inr ''.wav''
          \<and> named_temporary_file scenario_env ''.wav'' = Inr scenario_path
          \<and> upload_read scenario_env (audio scenario_request) = Inr ''RIFF''
          \<and> file_write scenario_env scenario_path ''RIFF'' = Inr ()
        \<longrightarrow> report_of (analyze_speech scenario_env scenario_request empty_world) =
              Some (compile_results scenario_request l)"
    using reported_scores_rounded_stage_values
      [OF scenario_stage_results, where ext = "''.wav''" and b = "''RIFF''" and u = "()"
        and w = empty_world]
    by blast
  have "report_of (analyze_speech scenario_env scenario_request empty_world) =
          Some (compile_results scenario_request l)"
    using inv scenario_valid scenario_staging by simp
  then show ?thesis using s r by simp
qed

subsection \<open>Failing stages\<close>

lemma proficiency_raises_run:
  "run_stages proficiency_raises_env scenario_request scenario_path =
     Inl (PyException ''division by zero'')"
  by (simp add: run_stages_def proficiency_raises_env_def scenario_env_def)

lemma proficiency_raises_staging:
  "named_temporary_file proficiency_raises_env ''.wav'' = Inr scenario_path"
  "upload_read proficiency_raises_env (audio scenario_request) = Inr ''RIFF''"
  "file_write proficiency_raises_env scenario_path ''RIFF'' = Inr ()"
  by (simp_all add: proficiency_raises_env_def scenario_staging)

text \<open>
  C2 says that a failure of any scorer other than transcription is replaced by a default
  score and never reaches the caller as an error. The endpoint has no handler around its
  scorers: when the proficiency scorer raises, the \<^verbatim>\<open>except\<close> clause answers with status
  500 and there is no report.
\<close>

theorem scorer_failure_counterexample:
  "fst (analyze_speech proficiency_raises_env scenario_request empty_world) =
     Inl (HTTPException 500 ''Analysis failed: division by zero'')
   \<and> report_of (analyze_speech proficiency_raises_env scenario_request empty_world) = None
   \<and> http_status (analyze_speech proficiency_raises_env scenario_request empty_world) = Some 500"
proof -
  have "fst (analyze_speech proficiency_raises_env scenario_request empty_world) =
          Inl (HTTPException 500 (''Analysis failed: '' @ str_exn (PyException ''division by zero'')))"
    by (rule analyze_speech_stage_raises
          [OF scenario_valid proficiency_raises_staging proficiency_raises_run])
  then show ?thesis by (simp add: report_of_def http_status_def)
qed

lemma fails_with_no_report:
  assumes "fails_with out e"
  shows "report_of out = None \<and> http_status out = Some 500"
  using assms by (simp add: fails_with_def report_of_def http_status_def)

text \<open>
  C2, amended. Take an invocation that reaches the scorers: the upload is accepted and
  staged, and the transcription and the duration probe return. The scorers run in the
  order filler words, pauses, proficiency, voice modulation, speech development, speech
  effectiveness, vocabulary. If one of them raises an exception \<open>e\<close> (one that derives
  from \<^verbatim>\<open>Exception\<close>), the ones before it having returned, no default takes its place:
  the invocation ends with the request-level error of status 500 and detail
  \<^verbatim>\<open>Analysis failed: \<close> followed by \<^verbatim>\<open>str(e)\<close>, and there is no report. If all seven
  return, the answer is a 200 and every dimension score is the value the scorer
  returned; the one substitution is 10.0 for a voice modulation result that carries an
  \<^verbatim>\<open>error\<close> entry.
\<close>

theorem scorer_exception_fails_request:
  assumes "validate_upload (filename (audio req)) = Inr ext"
    and "named_temporary_file env ext = Inr p"
    and "upload_read env (audio req) = Inr b"
    and "file_write env p b = Inr u"
    and "transcribe_audio env (whisper_model env) p = Inr tr"
    and "process_transcription env tr = Inr (wp, n)"
    and "audio_duration env p = Inr d"
  shows
    "(analyze_filler_words env tr = Inl e \<longrightarrow> fails_with (analyze_speech env req w) e)
     \<and> (analyze_filler_words env tr = Inr fa \<longrightarrow>
     (analyze_mid_sentence_pauses env wp = Inl e \<longrightarrow> fails_with (analyze_speech env req w) e)
     \<and> (analyze_mid_sentence_pauses env wp = Inr pa \<longrightarrow>
     (calculate_proficiency_score env fa pa (format_duration d) (form_expected_duration req) = Inl e
        \<longrightarrow> fails_with (analyze_speech env req w) e)
     \<and> (calculate_proficiency_score env fa pa (format_duration d) (form_expected_duration req) = Inr pr
        \<longrightarrow>
     (analyze_voice_modulation env p = Inl e \<longrightarrow> fails_with (analyze_speech env req w) e)
     \<and> (analyze_voice_modulation env p = Inr mr \<longrightarrow>
     (evaluate_speech_development env wp d (form_expected_duration req) = Inl e
        \<longrightarrow> fails_with (analyze_speech env req w) e)
     \<and> (evaluate_speech_development env wp d (form_expected_duration req) = Inr dr \<longrightarrow>
     (evaluate_speech_effectiveness env wp (form_topic req) (form_expected_duration req) d = Inl e
        \<longrightarrow> fails_with (analyze_speech env req w) e)
     \<and> (evaluate_speech_effectiveness env wp (form_topic req) (form_expected_duration req) d = Inr er
        \<longrightarrow>
     (evaluate_speech env tr wp p (form_topic req) = Inl e
        \<longrightarrow> fails_with (analyze_speech env req w) e)
     \<and> (evaluate_speech env tr wp p (form_topic req) = Inr vr \<longrightarrow>
     (\<exists>l. fst (analyze_speech env req w) = Inr (JSONResponse 200 (compile_results req l))
          \<and> run_stages env req p = Inr l
          \<and> proficiency_result l = pr
          \<and> modulation_score l =
              (case mr of ModulationError msg \<Rightarrow> 10 | ModulationScores t \<Rightarrow> t)
          \<and> development_score l = structure_score dr + time_utilization_score dr
          \<and> effectiveness_score l = total_score er
          \<and> vocabulary_score l = vr_vocabulary_score vr / 100 * 20))))))))
     \<and> (fails_with (analyze_speech env req w) e \<longrightarrow>
          fst (analyze_speech env req w) =
            Inl (HTTPException 500 (''Analysis failed: '' @ str_exn e))
          \<and> report_of (analyze_speech env req w) = None
          \<and> http_status (analyze_speech env req w) = Some 500)"
proof -
  note pre = assms(5-7)
  have F: "run_stages env req p = Inl x \<Longrightarrow> fails_with (analyze_speech env req w) x" for x
    using analyze_speech_stage_raises [OF assms(1-4)] by (simp add: fails_with_def)
  have f1: "analyze_filler_words env tr = Inl e \<Longrightarrow> run_stages env req p = Inl e"
    by (simp add: run_stages_def pre)
  have f2: "analyze_filler_words env tr = Inr fa \<Longrightarrow>
            analyze_mid_sentence_pauses env wp = Inl e \<Longrightarrow> run_stages env req p = Inl e"
    by (simp add: run_stages_def pre)
  have f3: "analyze_filler_words env tr = Inr fa \<Longrightarrow>
            analyze_mid_sentence_pauses env wp = Inr pa \<Longrightarrow>
            calculate_proficiency_score env fa pa (format_duration d)
              (form_expected_duration req) = Inl e \<Longrightarrow> run_stages env req p = Inl e"
    by (simp add: run_stages_def pre)
  have f4: "analyze_filler_words env tr = Inr fa \<Longrightarrow>
            analyze_mid_sentence_pauses env wp = Inr pa \<Longrightarrow>
            calculate_proficiency_score env fa pa (format_duration d)
              (form_expected_duration req) = Inr pr \<Longrightarrow>
            analyze_voice_modulation env p = Inl e \<Longrightarrow> run_stages env req p = Inl e"
    by (simp add: run_stages_def pre)
  have f5: "analyze_filler_words env tr = Inr fa \<Longrightarrow>
            analyze_mid_sentence_pauses env wp = Inr pa \<Longrightarrow>
            calculate_proficiency_score env fa pa (format_duration d)
              (form_expected_duration req) = Inr pr \<Longrightarrow>
            analyze_voice_modulation env p = Inr mr \<Longrightarrow>
            evaluate_speech_development env wp d (form_expected_duration req) = Inl e \<Longrightarrow>
            run_stages env req p = Inl e"
    by (simp add: run_stages_def pre)
  have f6: "analyze_filler_words env tr = Inr fa \<Longrightarrow>
            analyze_mid_sentence_pauses env wp = Inr pa \<Longrightarrow>
            calculate_proficiency_score env fa pa (format_duration d)
              (form_expected_duration req) = Inr pr \<Longrightarrow>
            analyze_voice_modulation env p = Inr mr \<Longrightarrow>
            evaluate_speech_development env wp d (form_expected_duration req) = Inr dr \<Longrightarrow>
            evaluate_speech_effectiveness env wp (form_topic req)
              (form_expected_duration req) d = Inl e \<Longrightarrow>
            run_stages env req p = Inl e"
    by (simp add: run_stages_def pre)
  have f7: "analyze_filler_words env tr = Inr fa \<Longrightarrow>
            analyze_mid_sentence_pauses env wp = Inr pa \<Longrightarrow>
            calculate_proficiency_score env fa pa (format_duration d)
              (form_expected_duration req) = Inr pr \<Longrightarrow>
            analyze_voice_modulation env p = Inr mr \<Longrightarrow>
            evaluate_speech_development env wp d (form_expected_duration req) = Inr dr \<Longrightarrow>
            evaluate_speech_effectiveness env wp (form_topic req)
              (form_expected_duration req) d = Inr er \<Longrightarrow>
            evaluate_speech env tr wp p (form_topic req) = Inl e \<Longrightarrow>
            run_stages env req p = Inl e"
    by (simp add: run_stages_def pre)
  have ok: "analyze_filler_words env tr = Inr fa \<Longrightarrow>
            analyze_mid_sentence_pauses env wp = Inr pa \<Longrightarrow>
            calculate_proficiency_score env fa pa (format_duration d)
              (form_expected_duration req) = Inr pr \<Longrightarrow>
            analyze_voice_modulation env p = Inr mr \<Longrightarrow>
            evaluate_speech_development env wp d (form_expected_duration req) = Inr dr \<Longrightarrow>
            evaluate_speech_effectiveness env wp (form_topic req)
              (form_expected_duration req) d = Inr er \<Longrightarrow>
            evaluate_speech env tr wp p (form_topic req) = Inr vr \<Longrightarrow>
            (\<exists>l. fst (analyze_speech env req w) = Inr (JSONResponse 200 (compile_results req l))
              \<and> run_stages env req p = Inr l
              \<and> proficiency_result l = pr
              \<and> modulation_score l =
                  (case mr of ModulationError msg \<Rightarrow> 10 | ModulationScores t \<Rightarrow> t)
              \<and> development_score l = structure_score dr + time_utilization_score dr
              \<and> effectiveness_score l = total_score er
              \<and> vocabulary_score l = vr_vocabulary_score vr / 100 * 20)"
  proof -
    assume a: "analyze_filler_words env tr = Inr fa"
      "analyze_mid_sentence_pauses env wp = Inr pa"
      "calculate_proficiency_score env fa pa (format_duration d)
              (form_expected_duration req) = Inr pr"
      "analyze_voice_modulation env p = Inr mr"
      "evaluate_speech_development env wp d (form_expected_duration req) = Inr dr"
      "evaluate_speech_effectiveness env wp (form_topic req)
              (form_expected_duration req) d = Inr er"
      "evaluate_speech env tr wp p (form_topic req) = Inr vr"
    obtain l where run: "run_stages env req p = Inr l"
      and rest: "proficiency_result l = pr"
        "modulation_score l =
           (case mr of ModulationError msg \<Rightarrow> 10 | ModulationScores t \<Rightarrow> t)"
        "development_score l = structure_score dr + time_utilization_score dr"
        "effectiveness_score l = total_score er"
        "vocabulary_score l = vr_vocabulary_score vr / 100 * 20"
      using run_stages_returns_scores [OF pre a] by blast
    have "fst (analyze_speech env req w) = Inr (JSONResponse 200 (compile_results req l))"
      by (rule analyze_speech_success [OF assms(1-4) run])
    then show ?thesis using run rest by blast
  qed
  have N: "fails_with (analyze_speech env req w) e \<longrightarrow>
          fst (analyze_speech env req w) =
            Inl (HTTPException 500 (''Analysis failed: '' @ str_exn e))
          \<and> report_of (analyze_speech env req w) = None
          \<and> http_status (analyze_speech env req w) = Some 500"
    using fails_with_no_report [of "analyze_speech env req w" e]
    by (simp add: fails_with_def)
  show ?thesis
    using F [OF f1] F [OF f2] F [OF f3] F [OF f4] F [OF f5] F [OF f6] F [OF f7] ok N
    by blast
qed

lemma vocabulary_raises_stage_results:
  "validate_upload (filename (audio scenario_request)) = Inr ''.wav''"
  "named_temporary_file vocabulary_raises_env ''.wav'' = Inr scenario_path"
  "upload_read vocabulary_raises_env (audio scenario_request) = Inr ''RIFF''"
  "file_write vocabulary_raises_env scenario_path ''RIFF'' = Inr ()"
  "transcribe_audio vocabulary_raises_env (whisper_model vocabulary_raises_env) scenario_path =
     Inr ''raw transcript''"
  "process_transcription vocabulary_raises_env ''raw transcript'' = Inr (''transcript [pause]'', 1)"
  "audio_duration vocabulary_raises_env scenario_path = Inr 180"
  "analyze_filler_words vocabulary_raises_env ''raw transcript'' =
     Inr \<lparr>Total_Filler_Words = 3, Filler_Density = 1 / 50, Filler_Words_Per_Minute = 1\<rparr>"
  "analyze_mid_sentence_pauses vocabulary_raises_env ''transcript [pause]'' = Inr ''pauses''"
  "calculate_proficiency_score vocabulary_raises_env
     \<lparr>Total_Filler_Words = 3, Filler_Density = 1 / 50, Filler_Words_Per_Minute = 1\<rparr>
     ''pauses'' (format_duration 180) (form_expected_duration scenario_request) =
     Inr \<lparr>final_score = 18\<rparr>"
  "analyze_voice_modulation vocabulary_raises_env scenario_path = Inr (ModulationScores 15)"
  "evaluate_speech_development vocabulary_raises_env ''transcript [pause]'' 180
     (form_expected_duration scenario_request) =
     Inr \<lparr>structure_score = 10, time_utilization_score = 6\<rparr>"
  "evaluate_speech_effectiveness vocabulary_raises_env ''transcript [pause]''
     (form_topic scenario_request) (form_expected_duration scenario_request) 180 =
     Inr \<lparr>total_score = 14\<rparr>"
  "evaluate_speech vocabulary_raises_env ''raw transcript'' ''transcript [pause]'' scenario_path
     (form_topic scenario_request) = Inl (PyException ''no tokens'')"
  by (simp_all add: vocabulary_raises_env_def scenario_stage_results scenario_staging
      scenario_valid)

theorem scorer_exception_fails_request_witness:
  "evaluate_speech vocabulary_raises_env ''raw transcript'' ''transcript [pause]'' scenario_path
     (form_topic scenario_request) = Inl (PyException ''no tokens'')
   \<and> fst (analyze_speech vocabulary_raises_env scenario_request empty_world) =
       Inl (HTTPException 500 ''Analysis failed: no tokens'')
   \<and> report_of (analyze_speech vocabulary_raises_env scenario_request empty_world) = None
   \<and> http_status (analyze_speech vocabulary_raises_env scenario_request empty_world) = Some 500
   \<and> http_status (analyze_speech scenario_env scenario_request empty_world) = Some 200"
proof -
  note raising =
    scorer_exception_fails_request
      [OF vocabulary_raises_stage_results(1-7),
        where e = "PyException ''no tokens''"
        and fa = "\<lparr>Total_Filler_Words = 3, Filler_Density = 1 / 50, Filler_Words_Per_Minute = 1\<rparr>"
        and pa = "''pauses''" and pr = "\<lparr>final_score = 18\<rparr>" and mr = "ModulationScores 15"
        and dr = "\<lparr>structure_score = 10, time_utilization_score = 6\<rparr>"
        and er = "\<lparr>total_score = 14\<rparr>" and w = empty_world]
  have f: "fails_with (analyze_speech vocabulary_raises_env scenario_request empty_world)
             (PyException ''no tokens'')"
    using raising vocabulary_raises_stage_results(8-14) by blast
  have a: "fst (analyze_speech vocabulary_raises_env scenario_request empty_world) =
             Inl (HTTPException 500 (''Analysis failed: '' @ str_exn (PyException ''no tokens'')))
           \<and> report_of (analyze_speech vocabulary_raises_env scenario_request empty_world) = None
           \<and> http_status (analyze_speech vocabulary_raises_env scenario_request empty_world) =
               Some 500"
    using raising f by blast
  note returning =
    scorer_exception_fails_request
      [OF scenario_valid scenario_staging scenario_stage_results(1-3),
        where e = "PyException ''no tokens''"
        and fa = "\<lparr>Total_Filler_Words = 3, Filler_Density = 1 / 50, Filler_Words_Per_Minute = 1\<rparr>"
        and pa = "''pauses''" and pr = "\<lparr>final_score = 18\<rparr>" and mr = "ModulationScores 15"
        and dr = "\<lparr>structure_score = 10, time_utilization_score = 6\<rparr>"
        and er = "\<lparr>total_score = 14\<rparr>"
        and vr = "\<lparr>vr_vocabulary_score = 17, vr_lexical_diversity = Some (1 / 2),
          vr_unique_words = Some 120, vr_advanced_vocab_count = None, vr_feedback = None\<rparr>"
        and w = empty_world]
  have "\<exists>l. fst (analyze_speech scenario_env scenario_request empty_world) =
             Inr (JSONResponse 200 (compile_results scenario_request l))"
    using returning scenario_stage_results(4-10) by blast
  then have b: "http_status (analyze_speech scenario_env scenario_request empty_world) = Some 200"
    by (auto simp: http_status_def)
  show ?thesis
    using a b vocabulary_raises_stage_results(14) by simp
qed

subsection \<open>The voice modulation default\<close>

lemma modulation_raises_run:
  "run_stages modulation_raises_env scenario_request scenario_path =
     Inl (PyException ''could not decode audio'')"
  by (simp add: run_stages_def modulation_raises_env_def scenario_env_def)

lemma modulation_raises_staging:
  "named_temporary_file modulation_raises_env ''.wav'' = Inr scenario_path"
  "upload_read modulation_raises_env (audio scenario_request) = Inr ''RIFF''"
  "file_write modulation_raises_env scenario_path ''RIFF'' = Inr ()"
  by (simp_all add: modulation_raises_env_def scenario_staging)

text \<open>
  C5 says that every invocation in which the voice modulation scorer fails still answers
  200 with a score of 10.0. The default is applied only to a result that the scorer
  returns with an \<^verbatim>\<open>error\<close> entry: a scorer that fails by raising ends the invocation
  with status 500.
\<close>

theorem modulation_failure_counterexample:
  "http_status (analyze_speech modulation_raises_env scenario_request empty_world) = Some 500
   \<and> report_of (analyze_speech modulation_raises_env scenario_request empty_world) = None"
proof -
  have "fst (analyze_speech modulation_raises_env scenario_request empty_world) =
          Inl (HTTPException 500
            (''Analysis failed: '' @ str_exn (PyException ''could not decode audio'')))"
    by (rule analyze_speech_stage_raises
          [OF scenario_valid modulation_raises_staging modulation_raises_run])
  then show ?thesis by (simp add: report_of_def http_status_def)
qed

lemma run_stages_modulation:
  assumes "run_stages env req p = Inr l"
  shows "analyze_voice_modulation env p = Inr (modulation_result l)"
  using assms by (auto simp: run_stages_def split: sum.splits prod.splits)

text \<open>
  C5, amended. When the voice modulation scorer returns a result with an \<^verbatim>\<open>error\<close>
  entry and every other step of the invocation returns, the voice modulation score is
  10.0, the report's \<open>voice_modulation_details\<close> is the empty dictionary (the report has
  no status field), and the answer is a 200.
\<close>

theorem modulation_error_defaults:
  assumes "validate_upload (filename (audio req)) = Inr ext"
    and "named_temporary_file env ext = Inr p"
    and "upload_read env (audio req) = Inr b"
    and "file_write env p b = Inr u"
    and "run_stages env req p = Inr l"
    and "analyze_voice_modulation env p = Inr (ModulationError msg)"
  shows "fst (analyze_speech env req w) = Inr (JSONResponse 200 (compile_results req l))
         \<and> http_status (analyze_speech env req w) = Some 200
         \<and> modulation_score l = 10
         \<and> voice_modulation (scores (compile_results req l)) = 10
         \<and> voice_modulation_details (compile_results req l) = None
         \<and> overall_score l =
             final_score (proficiency_result l) + 10 + development_score l +
             effectiveness_score l + vocabulary_score l"
proof -
  have ok: "fst (analyze_speech env req w) = Inr (JSONResponse 200 (compile_results req l))"
    by (rule analyze_speech_success [OF assms(1-5)])
  have m: "modulation_result l = ModulationError msg"
    using run_stages_modulation [OF assms(5)] assms(6) by simp
  have ten: "modulation_score l = 10"
    using run_stages_scores(1) [OF assms(5)] m by (simp add: modulation_score_of_def)
  have r: "py_round 10 1 = 10" using py_round1_exact [of 100] by simp
  have "voice_modulation (scores (compile_results req l)) = 10"
    using r by (simp add: compile_results_def ten)
  moreover have "voice_modulation_details (compile_results req l) = None"
    by (simp add: compile_results_def m)
  moreover have "overall_score l =
             final_score (proficiency_result l) + 10 + development_score l +
             effectiveness_score l + vocabulary_score l"
    using run_stages_scores(5) [OF assms(5)] ten by simp
  ultimately show ?thesis using ok ten by (simp add: http_status_def)
qed

lemma modulation_error_run:
  "run_stages modulation_error_env scenario_request scenario_path =
     Inr (scenario_locals\<lparr>modulation_result := ModulationError ''could not decode audio'',
            modulation_score := 10, overall_score := 307 / 5\<rparr>)"
  by (simp add: run_stages_def modulation_error_env_def scenario_env_def scenario_request_def
      scenario_locals_def scenario_path_def modulation_score_of_def format_duration_180)

lemma modulation_error_staging:
  "named_temporary_file modulation_error_env ''.wav'' = Inr scenario_path"
  "upload_read modulation_error_env (audio scenario_request) = Inr ''RIFF''"
  "file_write modulation_error_env scenario_path ''RIFF'' = Inr ()"
  "analyze_voice_modulation modulation_error_env scenario_path =
     Inr (ModulationError ''could not decode audio'')"
  by (simp_all add: modulation_error_env_def scenario_staging)

theorem modulation_error_defaults_witness:
  "analyze_voice_modulation modulation_error_env scenario_path =
     Inr (ModulationError ''could not decode audio'')
   \<and> http_status (analyze_speech modulation_error_env scenario_request empty_world) = Some 200
   \<and> map_option (\<lambda>r. voice_modulation (scores r))
       (report_of (analyze_speech modulation_error_env scenario_request empty_world)) = Some 10
   \<and> map_option voice_modulation_details
       (report_of (analyze_speech modulation_error_env scenario_request empty_world)) = Some None"
  using modulation_error_staging(4)
    modulation_error_defaults [OF scenario_valid modulation_error_staging(1-3)
      modulation_error_run modulation_error_staging(4), of empty_world]
  by (simp add: report_of_def)

subsection \<open>Rejected uploads\<close>

lemma dec_400: "dec 400 = ''400''"
  by code_simp

lemma validate_upload_accepts:
  "validate_upload (Some n) = Inr e \<longleftrightarrow>
     n \<noteq> [] \<and> e = lower (snd (splitext n)) \<and> e \<in> set allowed_extensions"
  by (auto simp: validate_upload_def Let_def)

lemma validate_upload_rejects:
  "(\<exists>d. validate_upload f = Inl (HTTPException 400 d)) \<longleftrightarrow>
     (f = None \<or> f = Some [] \<or> (\<exists>n. f = Some n \<and> lower (snd (splitext n)) \<notin> set allowed_extensions))"
  by (cases f) (auto simp: validate_upload_def Let_def)

lemma text_file_invalid:
  "validate_upload (filename (audio text_file_request)) =
     Inl (HTTPException 400 ''Invalid file type. Allowed: .wav, .mp3, .m4a, .flac, .ogg'')"
  unfolding text_file_request_def scenario_request_def by code_simp

text \<open>
  C3 says that an upload with a missing file name or an extension outside the list is
  answered with status 400. The validation raises the 400, but it does so inside the
  \<^verbatim>\<open>try\<close> block, whose \<^verbatim>\<open>except Exception\<close> clause catches it and answers 500 instead.
  For the upload \<^verbatim>\<open>notes.txt\<close>, with any collaborators and any file system:
\<close>

theorem invalid_format_answered_with_500:
  "validate_upload (filename (audio text_file_request)) =
     Inl (HTTPException 400 ''Invalid file type. Allowed: .wav, .mp3, .m4a, .flac, .ogg'')
   \<and> analyze_speech env text_file_request w =
       (Inl (HTTPException 500
          ''Analysis failed: 400: Invalid file type. Allowed: .wav, .mp3, .m4a, .flac, .ogg''), w)
   \<and> http_status (analyze_speech env text_file_request w) = Some 500
   \<and> http_status
        (analyze_speech env (text_file_request\<lparr>audio := \<lparr>filename = None, payload = []\<rparr>\<rparr>) w) =
       Some 500"
proof -
  have "validate_upload
          (filename (audio (text_file_request\<lparr>audio := \<lparr>filename = None, payload = []\<rparr>\<rparr>))) =
        Inl (HTTPException 400 ''No audio file provided'')"
    by (simp add: validate_upload_def)
  then have "http_status
        (analyze_speech env (text_file_request\<lparr>audio := \<lparr>filename = None, payload = []\<rparr>\<rparr>) w) =
       Some 500"
    using analyze_speech_invalid by (simp add: http_status_def)
  then show ?thesis
    using analyze_speech_invalid [OF text_file_invalid, of env w] text_file_invalid
    by (simp add: dec_400 http_status_def)
qed

subsection \<open>The temporary file\<close>

lemma cleanup_removes:
  assumes "p \<noteq> []" and "p \<notin> set (locked w)"
  shows "cleanup (Some p) (w\<lparr>files := p # files w\<rparr>) =
           w\<lparr>files := removeAll p (files w), unlink_log := unlink_log w @ [p]\<rparr>"
  using assms by (simp add: cleanup_def os_path_exists_def os_unlink_def)

lemma cleanup_locked:
  assumes "p \<in> set (locked w)"
  shows "cleanup (Some p) (w\<lparr>files := p # files w\<rparr>) = w\<lparr>files := p # files w\<rparr>"
  using assms by (simp add: cleanup_def os_path_exists_def os_unlink_def)

lemma try_block_path:
  "fst (snd (try_block env req w)) = staged_path env req
   \<and> snd (snd (try_block env req w)) =
       (case staged_path env req of None \<Rightarrow> w | Some p \<Rightarrow> w\<lparr>files := p # files w\<rparr>)"
  by (simp add: try_block_def staged_path_def Let_def split: sum.splits)

lemma v2_try_block_path:
  "fst (snd (v2_try_block svc req w)) = v2_staged_path svc req
   \<and> snd (snd (v2_try_block svc req w)) =
       (case v2_staged_path svc req of None \<Rightarrow> w | Some p \<Rightarrow> w\<lparr>files := p # files w\<rparr>)"
  by (simp add: v2_try_block_def v2_staged_path_def Let_def split: sum.splits)

lemma analyze_speech_world:
  "snd (analyze_speech env req w) =
     (case staged_path env req of
        None \<Rightarrow> w
      | Some p \<Rightarrow> cleanup (Some p) (w\<lparr>files := p # files w\<rparr>))"
  using try_block_path [of env req w]
  by (auto simp: analyze_speech_def cleanup_def split: prod.splits option.splits)

lemma v2_analyze_speech_world:
  "snd (v2_analyze_speech svc req w) =
     (case v2_staged_path svc req of
        None \<Rightarrow> w
      | Some p \<Rightarrow> cleanup (Some p) (w\<lparr>files := p # files w\<rparr>))"
  using v2_try_block_path [of svc req w]
  by (auto simp: v2_analyze_speech_def cleanup_def split: prod.splits option.splits)

lemma scenario_staged: "staged_path scenario_env scenario_request = Some scenario_path"
  by (simp add: staged_path_def scenario_valid scenario_staging)

text \<open>
  C8 says that the staged file is released on every exit path and that the invocation
  never ends while it still holds the file. The \<^verbatim>\<open>finally\<close> clause swallows a removal
  that fails: with a file the operating system refuses to remove, the invocation
  answers 200, the file is still there and nothing was removed.
\<close>

theorem staged_file_kept_counterexample:
  "http_status (analyze_speech scenario_env scenario_request locked_world) = Some 200
   \<and> files (snd (analyze_speech scenario_env scenario_request locked_world)) =
       [''/tmp/tmpk3v9.wav'']
   \<and> unlink_log (snd (analyze_speech scenario_env scenario_request locked_world)) = []"
proof -
  have "fst (analyze_speech scenario_env scenario_request locked_world) =
          Inr (JSONResponse 200 (compile_results scenario_request scenario_locals))"
    by (rule analyze_speech_success [OF scenario_valid scenario_staging scenario_run_stages])
  moreover have "snd (analyze_speech scenario_env scenario_request locked_world) =
          locked_world\<lparr>files := scenario_path # files locked_world\<rparr>"
    using cleanup_locked [of scenario_path locked_world]
    by (simp add: analyze_speech_world scenario_staged) (simp add: locked_world_def scenario_path_def)
  ultimately show ?thesis
    by (simp add: http_status_def locked_world_def scenario_path_def)
qed

text \<open>
  C8, amended. On every exit path of either analysis endpoint, whatever the outcome: when
  no file was staged (the upload was rejected, or the temporary file could not be
  created) the file system is left as it was; when a file was staged and the operating
  system lets it be removed, it is removed exactly once before the invocation ends and
  is gone afterwards. A removal that fails is swallowed and leaves the file in place.
\<close>

theorem staged_file_released:
  "(staged_path env req = None \<longrightarrow> snd (analyze_speech env req w) = w)
   \<and> (staged_path env req = Some p \<and> p \<noteq> [] \<and> p \<notin> set (locked w) \<longrightarrow>
        snd (analyze_speech env req w) =
          w\<lparr>files := removeAll p (files w), unlink_log := unlink_log w @ [p]\<rparr>
        \<and> p \<notin> set (files (snd (analyze_speech env req w)))
        \<and> count_list (unlink_log (snd (analyze_speech env req w))) p =
            count_list (unlink_log w) p + 1)
   \<and> (staged_path env req = Some p \<and> p \<in> set (locked w) \<longrightarrow>
        snd (analyze_speech env req w) = w\<lparr>files := p # files w\<rparr>)
   \<and> (v2_staged_path svc req2 = None \<longrightarrow> snd (v2_analyze_speech svc req2 w) = w)
   \<and> (v2_staged_path svc req2 = Some p \<and> p \<noteq> [] \<and> p \<notin> set (locked w) \<longrightarrow>
        snd (v2_analyze_speech svc req2 w) =
          w\<lparr>files := removeAll p (files w), unlink_log := unlink_log w @ [p]\<rparr>
        \<and> p \<notin> set (files (snd (v2_analyze_speech svc req2 w)))
        \<and> count_list (unlink_log (snd (v2_analyze_speech svc req2 w))) p =
            count_list (unlink_log w) p + 1)"
  by (simp add: analyze_speech_world v2_analyze_speech_world cleanup_removes cleanup_locked)

lemma scenario_v2_staged:
  "v2_staged_path scenario_services scenario_v2_request = Some ''/tmp/tmpq7w2.wav''"
proof -
  have "v2_validate_upload (Some ''speech.wav'') = Inr ''.wav''" by code_simp
  then show ?thesis
    by (simp add: v2_staged_path_def scenario_v2_request_def scenario_services_def)
qed

theorem staged_file_released_witness:
  "staged_path scenario_env scenario_request = Some ''/tmp/tmpk3v9.wav''
   \<and> snd (analyze_speech scenario_env scenario_request empty_world) =
       \<lparr>files = [], locked = [], unlink_log = [''/tmp/tmpk3v9.wav'']\<rparr>
   \<and> staged_path scenario_env text_file_request = None
   \<and> snd (analyze_speech scenario_env text_file_request empty_world) = empty_world
   \<and> snd (analyze_speech proficiency_raises_env scenario_request empty_world) =
       \<lparr>files = [], locked = [], unlink_log = [''/tmp/tmpk3v9.wav'']\<rparr>
   \<and> snd (v2_analyze_speech scenario_services scenario_v2_request empty_world) =
       \<lparr>files = [], locked = [], unlink_log = [''/tmp/tmpq7w2.wav'']\<rparr>"
proof -
  have a: "staged_path scenario_env text_file_request = None"
    by (simp add: staged_path_def text_file_invalid)
  have b: "staged_path proficiency_raises_env scenario_request = Some scenario_path"
    by (simp add: staged_path_def scenario_valid proficiency_raises_staging)
  show ?thesis
    using staged_file_released
        [of scenario_env scenario_request empty_world scenario_path scenario_services
          scenario_v2_request]
      staged_file_released
        [of scenario_env text_file_request empty_world scenario_path scenario_services
          scenario_v2_request]
      staged_file_released
        [of proficiency_raises_env scenario_request empty_world scenario_path scenario_services
          scenario_v2_request]
      staged_file_released
        [of scenario_env scenario_request empty_world "''/tmp/tmpq7w2.wav''" scenario_services
          scenario_v2_request]
      a b scenario_staged scenario_v2_staged
    by (simp add: empty_world_def scenario_path_def)
qed

subsection \<open>The save endpoint\<close>

lemma firestore_unbound:
  "load_global ''firestore'' =
     Inl (PyException (''name '' @ [CHR 0x27] @ ''firestore'' @ [CHR 0x27] @ '' is not defined''))"
  by (simp add: load_global_def module_globals_def)

text \<open>
  C9 says that the save endpoint stores the report and returns the identifier of the new
  document. The endpoint reads \<^verbatim>\<open>firestore.SERVER_TIMESTAMP\<close>, but the module never
  imports \<^verbatim>\<open>firestore\<close> (line 23 imports \<^verbatim>\<open>db\<close> only): the read raises
  \<^verbatim>\<open>NameError\<close> before \<^verbatim>\<open>doc_ref.set\<close> is called. Every request is answered with
  status 500 and nothing is stored.
\<close>

theorem save_speech_always_fails:
  "(\<exists>d. save_speech_to_firebase env uid speech_data db = (Inl (HTTPException 500 d), db))
   \<and> save_speech_to_firebase scenario_persistence ''user-1'' ''{}'' empty_firestore =
       (Inl (HTTPException 500
          (''Failed to save speech: name '' @ [CHR 0x27] @ ''firestore'' @ [CHR 0x27] @
           '' is not defined'')),
        empty_firestore)"
  by (simp add: save_speech_to_firebase_def save_try_block_def firestore_unbound
      scenario_persistence_def Let_def split: sum.splits)

subsection \<open>Letter case of the extension\<close>

lemma of_char_lower_char:
  "(of_char (lower_char c) :: nat) =
     (if 65 \<le> (of_char c :: nat) \<and> (of_char c :: nat) \<le> 90 then of_char c + 32 else of_char c)"
  by (simp add: lower_char_def Let_def)

lemma lower_char_idem: "lower_char (lower_char c) = lower_char c"
proof -
  have "(of_char (lower_char (lower_char c)) :: nat) = of_char (lower_char c)"
    by (simp add: of_char_lower_char)
  then show ?thesis by (simp only: of_char_eq_iff)
qed

lemma lower_char_dot: "lower_char c = CHR ''.'' \<longleftrightarrow> c = CHR ''.''"
proof -
  have "lower_char c = CHR ''.'' \<longleftrightarrow> (of_char (lower_char c) :: nat) = of_char (CHR ''.'')"
    by (simp only: of_char_eq_iff)
  also have "\<dots> \<longleftrightarrow> (of_char c :: nat) = of_char (CHR ''.'')"
    by (auto simp: of_char_lower_char)
  also have "\<dots> \<longleftrightarrow> c = CHR ''.''"
    by (simp only: of_char_eq_iff)
  finally show ?thesis .
qed

lemma lower_char_slash: "lower_char c = CHR ''/'' \<longleftrightarrow> c = CHR ''/''"
proof -
  have "lower_char c = CHR ''/'' \<longleftrightarrow> (of_char (lower_char c) :: nat) = of_char (CHR ''/'')"
    by (simp only: of_char_eq_iff)
  also have "\<dots> \<longleftrightarrow> (of_char c :: nat) = of_char (CHR ''/'')"
    by (auto simp: of_char_lower_char)
  also have "\<dots> \<longleftrightarrow> c = CHR ''/''"
    by (simp only: of_char_eq_iff)
  finally show ?thesis .
qed

lemma lower_idem: "lower (lower s) = lower s"
  by (simp add: lower_def lower_char_idem)

lemma rfind_from_map:
  assumes "\<And>x. f x = c \<longleftrightarrow> x = c"
  shows "rfind_from c (map f s) i found = rfind_from c s i found"
  by (induction s arbitrary: i found) (simp_all add: assms)

lemma rfind_lower:
  "rfind (CHR ''.'') (lower s) = rfind (CHR ''.'') s"
  "rfind (CHR ''/'') (lower s) = rfind (CHR ''/'') s"
  by (simp_all add: rfind_def lower_def rfind_from_map lower_char_dot lower_char_slash)

lemma splitext_lower: "snd (splitext (lower p)) = lower (snd (splitext p))"
proof -
  have "list_ex (\<lambda>ch. ch \<noteq> CHR ''.'') (take n (drop m (lower p))) =
        list_ex (\<lambda>ch. ch \<noteq> CHR ''.'') (take n (drop m p))" for n m
    by (simp add: lower_def list_ex_iff drop_map take_map lower_char_dot)
  then show ?thesis
    by (simp add: splitext_def rfind_lower Let_def) (simp add: lower_def drop_map)
qed

lemma split_on_map:
  assumes "\<And>x. f x = c \<longleftrightarrow> x = c"
  shows "split_on c (map f s) = map (map f) (split_on c s)"
  by (induction s) (auto simp: assms split: list.splits)

lemma lower_eq_dot: "lower x = ''.'' \<longleftrightarrow> x = ''.''"
  by (cases x) (auto simp: lower_def lower_char_dot)

lemma path_name_lower: "path_name (lower p) = lower (path_name p)"
proof -
  have s: "split_on (CHR ''/'') (lower p) = map lower (split_on (CHR ''/'') p)"
    unfolding lower_def by (rule split_on_map) (rule lower_char_slash)
  have f: "filter (\<lambda>x. x \<noteq> [] \<and> x \<noteq> ''.'') (map lower xs) =
           map lower (filter (\<lambda>x. x \<noteq> [] \<and> x \<noteq> ''.'') xs)" for xs
    by (induction xs) (auto simp: lower_eq_dot, simp_all add: lower_def)
  have l: "lower [] = []" by (simp add: lower_def)
  have m: "xs \<noteq> [] \<Longrightarrow> last (map lower xs) = lower (last xs)" for xs :: "string list"
    by (rule last_map)
  show ?thesis
  proof (cases "filter (\<lambda>x. x \<noteq> [] \<and> x \<noteq> ''.'') (split_on (CHR ''/'') p)")
    case Nil
    then show ?thesis by (simp add: path_name_def s f l)
  next
    case (Cons q qs)
    then show ?thesis using m [of "q # qs"] by (simp add: path_name_def s f)
  qed
qed

lemma path_suffix_lower: "path_suffix (lower p) = lower (path_suffix p)"
proof -
  have n: "length (lower s) = length s" for s by (simp add: lower_def)
  have d: "drop k (lower s) = lower (drop k s)" for k s by (simp add: lower_def drop_map)
  have l: "lower [] = []" by (simp add: lower_def)
  show ?thesis
    by (simp add: path_suffix_def path_name_lower rfind_lower Let_def n d l)
qed

lemma file_ext_same_case:
  assumes "lower n1 = lower n2"
  shows "lower (snd (splitext n1)) = lower (snd (splitext n2))"
    and "lower (path_suffix n1) = lower (path_suffix n2)"
proof -
  have "lower (snd (splitext n1)) = lower (snd (splitext (lower n1)))"
    by (simp add: splitext_lower lower_idem)
  also have "\<dots> = lower (snd (splitext n2))"
    by (simp add: assms splitext_lower lower_idem)
  finally show "lower (snd (splitext n1)) = lower (snd (splitext n2))" .
  have "lower (path_suffix n1) = lower (path_suffix (lower n1))"
    by (simp add: path_suffix_lower lower_idem)
  also have "\<dots> = lower (path_suffix n2)"
    by (simp add: assms path_suffix_lower lower_idem)
  finally show "lower (path_suffix n1) = lower (path_suffix n2)" .
qed

text \<open>
  C10. The extension test of both analysis endpoints lowercases the extension before it
  looks it up in the list, so two file names that differ only in letter case are
  treated alike: a name is accepted exactly when its lowercased extension is in the
  list. \<^verbatim>\<open>talk.WAV\<close> and \<^verbatim>\<open>clip.Mp3\<close> are accepted.
\<close>

theorem extension_check_ignores_case:
  assumes "lower n1 = lower n2"
  shows "validate_upload (Some n1) = validate_upload (Some n2)
         \<and> v2_validate_upload (Some n1) = v2_validate_upload (Some n2)
         \<and> (validate_upload (Some n1) = Inr e \<longleftrightarrow>
              n1 \<noteq> [] \<and> e = lower (snd (splitext n1)) \<and> e \<in> set allowed_extensions)
         \<and> (v2_validate_upload (Some n1) = Inr e \<longleftrightarrow>
              n1 \<noteq> [] \<and> e = lower (path_suffix n1) \<and> e \<in> set v2_allowed_extensions)"
proof -
  have e: "n1 = [] \<longleftrightarrow> n2 = []"
    using assms by (auto simp: lower_def dest: arg_cong [where f = length])
  have "validate_upload (Some n1) = validate_upload (Some n2)"
    using e by (simp add: validate_upload_def file_ext_same_case(1) [OF assms])
  moreover have "v2_validate_upload (Some n1) = v2_validate_upload (Some n2)"
    using e by (simp add: v2_validate_upload_def file_ext_same_case(2) [OF assms])
  moreover have "validate_upload (Some n1) = Inr e \<longleftrightarrow>
              n1 \<noteq> [] \<and> e = lower (snd (splitext n1)) \<and> e \<in> set allowed_extensions"
    by (rule validate_upload_accepts)
  moreover have "v2_validate_upload (Some n1) = Inr e \<longleftrightarrow>
              n1 \<noteq> [] \<and> e = lower (path_suffix n1) \<and> e \<in> set v2_allowed_extensions"
    by (auto simp: v2_validate_upload_def Let_def)
  ultimately show ?thesis by simp
qed

theorem extension_check_ignores_case_witness:
  "lower ''talk.WAV'' = lower ''talk.wav''
   \<and> validate_upload (Some ''talk.WAV'') = Inr ''.wav''
   \<and> validate_upload (Some ''clip.Mp3'') = Inr ''.mp3''
   \<and> v2_validate_upload (Some ''talk.WAV'') = Inr ''.wav''
   \<and> v2_validate_upload (Some ''clip.Mp3'') = Inr ''.mp3''"
proof -
  have h: "lower ''talk.WAV'' = lower ''talk.wav''" by code_simp
  have a: "validate_upload (Some ''talk.wav'') = Inr ''.wav''" by code_simp
  have b: "v2_validate_upload (Some ''talk.wav'') = Inr ''.wav''" by code_simp
  have c: "validate_upload (Some ''clip.Mp3'') = Inr ''.mp3''" by code_simp
  have d: "v2_validate_upload (Some ''clip.Mp3'') = Inr ''.mp3''" by code_simp
  show ?thesis
    using extension_check_ignores_case [OF h] h a b c d by simp
qed

end
